theory Spec2Isabelle
  imports Complex_Main "HOL-Library.Sublist" "HOL-Library.Multiset"
begin

section \<open>Python values, errors and the random generator\<close>

text \<open>
  The fallback layer of the backend (\<^verbatim>\<open>fallback_models.py\<close>) and the two helpers of
  \<^verbatim>\<open>main.py\<close> (\<^verbatim>\<open>generate_recommendation\<close>, \<^verbatim>\<open>filter_products\<close>) are embedded as HOL
  functions. A Python exception is a value of \<open>py_error\<close>; a function that can raise returns
  \<open>py_error + 'a\<close> with \<open>Inl\<close> for the exception.

  The weighted sampler is embedded over an arbitrary floating-point arithmetic, a record
  of the operations it uses, so that what is proved of it holds whatever the rounding,
  the overflow and the special values of the arithmetic do. The providers draw from
  fixed tables and are evaluated in the exact arithmetic of the reals.

  Python strings are modelled by \<open>string\<close>. Where a lowered or raised string is compared
  with ASCII literals, \<^verbatim>\<open>str.lower\<close> and \<^verbatim>\<open>str.upper\<close> act on the ASCII letters; where
  two arbitrary strings are compared after lowering, \<^verbatim>\<open>str.lower\<close> is a parameter.
\<close>

datatype py_error = ValueError | ZeroDivisionError | KeyError | IndexError | AttributeError

text \<open>
  The process-global generator of the \<^verbatim>\<open>random\<close> module is threaded through every
  function as an explicit state: an infinite sequence of natural numbers, the entropy
  that the remaining calls will consume. Each primitive draw consumes one element.
  Quantifying over all sequences is quantifying over all outcomes of the draws.
\<close>

type_synonym rng = "nat \<Rightarrow> nat"

definition rng_next :: "rng \<Rightarrow> nat \<times> rng" where
  "rng_next g = (g 0, \<lambda>i. g (Suc i))"

text \<open>
  The generator whose every element is \<open>k\<close>, for evaluating the functions on concrete
  inputs.
\<close>

definition constant_rng :: "nat \<Rightarrow> rng" where
  "constant_rng k = (\<lambda>i. k)"

text \<open>
  \<^verbatim>\<open>random.random()\<close>: a multiple of \<open>2\<^sup>-\<^sup>5\<^sup>3\<close> in \<open>[0, 1)\<close>.
\<close>

definition py_random :: "rng \<Rightarrow> real \<times> rng" where
  "py_random g = (let (k, g') = rng_next g in (real (k mod 2 ^ 53) / 2 ^ 53, g'))"

text \<open>
  \<^verbatim>\<open>random.uniform(a, b)\<close> is \<^verbatim>\<open>a + (b - a) * self.random()\<close>.
\<close>

definition uniform :: "real \<Rightarrow> real \<Rightarrow> rng \<Rightarrow> real \<times> rng" where
  "uniform a b g = (let (u, g') = py_random g in (a + (b - a) * u, g'))"

text \<open>
  The same expression with every floating-point operation followed by a rounding \<open>rnd\<close>:
  the subtraction, the product and the sum. It serves to show that the bounds on
  \<open>uniform\<close> do not rest on exact arithmetic.
\<close>

definition uniform_rounded :: "(real \<Rightarrow> real) \<Rightarrow> real \<Rightarrow> real \<Rightarrow> rng \<Rightarrow> real \<times> rng" where
  "uniform_rounded rnd a b g =
     (let (u, g') = py_random g in (rnd (a + rnd (rnd (b - a) * u)), g'))"

text \<open>
  \<^verbatim>\<open>Random._randbelow(n)\<close> for \<open>n > 0\<close>: some integer in \<open>[0, n)\<close>. The library finds
  it by rejection sampling on random bits; the model reduces one element of the
  sequence modulo \<open>n\<close>, which reaches every value of the range.
\<close>

definition randbelow :: "nat \<Rightarrow> rng \<Rightarrow> nat \<times> rng" where
  "randbelow n g = (let (k, g') = rng_next g in (k mod n, g'))"

text \<open>
  \<^verbatim>\<open>random.randint(a, b)\<close> is \<^verbatim>\<open>randrange(a, b + 1)\<close>, which raises \<^verbatim>\<open>ValueError\<close> on an
  empty range and returns \<^verbatim>\<open>a + _randbelow(b + 1 - a)\<close> otherwise.
\<close>

definition randint :: "int \<Rightarrow> int \<Rightarrow> rng \<Rightarrow> py_error + (int \<times> rng)" where
  "randint a b g =
     (if b + 1 - a \<le> 0 then Inl ValueError
      else let (k, g') = randbelow (nat (b + 1 - a)) g in Inr (a + int k, g'))"

subsection \<open>Floating-point arithmetic\<close>

text \<open>
  The operations on floats that the sampler and \<^verbatim>\<open>random.choices\<close> use, on a type \<open>'w\<close>
  of float values:
  \<^item> \<open>fsum\<close>: the builtin \<^verbatim>\<open>sum\<close> of a sequence of weights;
  \<^item> \<open>is_zero\<close>: the test \<^verbatim>\<open>== 0\<close> that the division makes on its divisor;
  \<^item> \<open>fdiv\<close>: \<^verbatim>\<open>x / y\<close> for a divisor that is not zero;
  \<^item> \<open>fadd\<close>, \<open>fmul\<close>: \<^verbatim>\<open>x + y\<close>, \<^verbatim>\<open>x * y\<close>;
  \<^item> \<open>fzero\<close>: the literal \<^verbatim>\<open>0.0\<close>;
  \<^item> \<open>fle\<close>, \<open>flt\<close>: \<^verbatim>\<open>x <= y\<close>, \<^verbatim>\<open>x < y\<close>;
  \<^item> \<open>isfinite\<close>: \<^verbatim>\<open>math.isfinite\<close>;
  \<^item> \<open>of_unit\<close>: the float that \<^verbatim>\<open>random.random()\<close> returns, given its value.
\<close>

record 'w arith =
  fsum :: "'w list \<Rightarrow> 'w"
  is_zero :: "'w \<Rightarrow> bool"
  fdiv :: "'w \<Rightarrow> 'w \<Rightarrow> 'w"
  fadd :: "'w \<Rightarrow> 'w \<Rightarrow> 'w"
  fmul :: "'w \<Rightarrow> 'w \<Rightarrow> 'w"
  fzero :: "'w"
  fle :: "'w \<Rightarrow> 'w \<Rightarrow> bool"
  flt :: "'w \<Rightarrow> 'w \<Rightarrow> bool"
  isfinite :: "'w \<Rightarrow> bool"
  of_unit :: "real \<Rightarrow> 'w"

text \<open>
  The exact arithmetic of the reals: no rounding, no overflow, no special value.
\<close>

definition real_arith :: "real arith" where
  "real_arith =
     \<lparr>fsum = sum_list, is_zero = (\<lambda>x. x = 0), fdiv = (\<lambda>x y. x / y), fadd = (\<lambda>x y. x + y),
      fmul = (\<lambda>x y. x * y), fzero = 0, fle = (\<lambda>x y. x \<le> y), flt = (\<lambda>x y. x < y),
      isfinite = (\<lambda>x. True), of_unit = (\<lambda>u. u)\<rparr>"

text \<open>
  Floats with their special values. \<open>float_arith\<close> computes a finite result exactly and
  turns it into an infinity where binary64 does, from \<open>2\<^sup>1\<^sup>0\<^sup>2\<^sup>4 - 2\<^sup>9\<^sup>7\<^sup>0\<close> on; the special values
  follow IEEE 754. It agrees with binary64 wherever the exact result is a binary64 number
  or overflows; it does not round, and the two zeros are one value (no comparison tells
  them apart).
\<close>

datatype py_float = Fin real | PosInf | NegInf | NaN

definition overflow :: "real \<Rightarrow> py_float" where
  "overflow x =
     (if 2 ^ 1024 - 2 ^ 970 \<le> x then PosInf
      else if x \<le> - (2 ^ 1024 - 2 ^ 970) then NegInf
      else Fin x)"

fun float_neg :: "py_float \<Rightarrow> py_float" where
  "float_neg (Fin x) = Fin (- x)"
| "float_neg PosInf = NegInf"
| "float_neg NegInf = PosInf"
| "float_neg NaN = NaN"

definition float_add :: "py_float \<Rightarrow> py_float \<Rightarrow> py_float" where
  "float_add x y =
     (case x of
        NaN \<Rightarrow> NaN
      | Fin a \<Rightarrow> (case y of Fin b \<Rightarrow> overflow (a + b) | _ \<Rightarrow> y)
      | PosInf \<Rightarrow> (case y of NegInf \<Rightarrow> NaN | NaN \<Rightarrow> NaN | _ \<Rightarrow> PosInf)
      | NegInf \<Rightarrow> (case y of PosInf \<Rightarrow> NaN | NaN \<Rightarrow> NaN | _ \<Rightarrow> NegInf))"

definition float_mul :: "py_float \<Rightarrow> py_float \<Rightarrow> py_float" where
  "float_mul x y =
     (case x of
        NaN \<Rightarrow> NaN
      | Fin a \<Rightarrow>
          (case y of
             Fin b \<Rightarrow> overflow (a * b)
           | NaN \<Rightarrow> NaN
           | _ \<Rightarrow> (if a = 0 then NaN else if 0 < a then y else float_neg y))
      | PosInf \<Rightarrow>
          (case y of
             Fin b \<Rightarrow> (if b = 0 then NaN else if 0 < b then PosInf else NegInf)
           | _ \<Rightarrow> y)
      | NegInf \<Rightarrow>
          (case y of
             Fin b \<Rightarrow> (if b = 0 then NaN else if 0 < b then NegInf else PosInf)
           | _ \<Rightarrow> float_neg y))"

text \<open>
  The division is applied to a divisor that is not zero: on a zero divisor \<^verbatim>\<open>/\<close> raises
  before it computes.
\<close>

definition float_div :: "py_float \<Rightarrow> py_float \<Rightarrow> py_float" where
  "float_div x y =
     (case x of
        NaN \<Rightarrow> NaN
      | Fin a \<Rightarrow> (case y of Fin b \<Rightarrow> overflow (a / b) | NaN \<Rightarrow> NaN | _ \<Rightarrow> Fin 0)
      | _ \<Rightarrow> (case y of Fin b \<Rightarrow> (if 0 < b then x else float_neg x) | _ \<Rightarrow> NaN))"

definition float_lt :: "py_float \<Rightarrow> py_float \<Rightarrow> bool" where
  "float_lt x y =
     (case x of
        NaN \<Rightarrow> False
      | PosInf \<Rightarrow> False
      | Fin a \<Rightarrow> (case y of Fin b \<Rightarrow> a < b | PosInf \<Rightarrow> True | _ \<Rightarrow> False)
      | NegInf \<Rightarrow> (case y of Fin b \<Rightarrow> True | PosInf \<Rightarrow> True | _ \<Rightarrow> False))"

definition float_le :: "py_float \<Rightarrow> py_float \<Rightarrow> bool" where
  "float_le x y = (x \<noteq> NaN \<and> y \<noteq> NaN \<and> (x = y \<or> float_lt x y))"

definition float_isfinite :: "py_float \<Rightarrow> bool" where
  "float_isfinite x = (case x of Fin a \<Rightarrow> True | _ \<Rightarrow> False)"

text \<open>
  \<^verbatim>\<open>sum\<close> adds from the left, starting from the integer \<open>0\<close>. (From CPython 3.12 on it
  also compensates the rounding error, of which this arithmetic has none.)
\<close>

definition float_arith :: "py_float arith" where
  "float_arith =
     \<lparr>fsum = foldl float_add (Fin 0), is_zero = (\<lambda>x. x = Fin 0), fdiv = float_div,
      fadd = float_add, fmul = float_mul, fzero = Fin 0, fle = float_le, flt = float_lt,
      isfinite = float_isfinite, of_unit = Fin\<rparr>"

subsection \<open>The library functions of the sampler\<close>

text \<open>
  \<^verbatim>\<open>itertools.accumulate\<close>: the running sums of a sequence.
\<close>

fun accumulate_from :: "'w arith \<Rightarrow> 'w \<Rightarrow> 'w list \<Rightarrow> 'w list" where
  "accumulate_from A acc [] = []"
| "accumulate_from A acc (w # ws) = fadd A acc w # accumulate_from A (fadd A acc w) ws"

fun accumulate :: "'w arith \<Rightarrow> 'w list \<Rightarrow> 'w list" where
  "accumulate A [] = []"
| "accumulate A (w # ws) = w # accumulate_from A w ws"

text \<open>
  \<^verbatim>\<open>bisect.bisect_right(a, x, lo, hi)\<close>:
  \<^verbatim>\<open>
    while lo < hi:
        mid = (lo + hi) // 2
        if x < a[mid]: hi = mid
        else: lo = mid + 1
    return lo
  \<close>
\<close>

function bisect :: "'w arith \<Rightarrow> 'w list \<Rightarrow> 'w \<Rightarrow> nat \<Rightarrow> nat \<Rightarrow> nat" where
  "bisect A a x lo hi =
     (if lo < hi then
        (let mid = (lo + hi) div 2
         in if flt A x (a ! mid) then bisect A a x lo mid else bisect A a x (mid + 1) hi)
      else lo)"
  by pat_completeness auto
termination
  by (relation "measure (\<lambda>(A, a, x, lo, hi). hi - lo)") auto

declare bisect.simps [simp del]

text \<open>
  \<^verbatim>\<open>random.choices(population, weights, k=1)\<close> (CPython 3.9 and later):
  \<^verbatim>\<open>
    n = len(population)
    cum_weights = list(accumulate(weights))
    if len(cum_weights) != n: raise ValueError
    total = cum_weights[-1] + 0.0
    if total <= 0.0: raise ValueError
    if not isfinite(total): raise ValueError
    hi = n - 1
    return [population[bisect(cum_weights, random() * total, 0, hi)]]
  \<close>
  The model returns the one element of the result list (the caller takes \<^verbatim>\<open>[0]\<close>).
\<close>

definition choices :: "'w arith \<Rightarrow> 'a list \<Rightarrow> 'w list \<Rightarrow> rng \<Rightarrow> py_error + ('a \<times> rng)" where
  "choices A population weights g =
     (let n = length population;
          cum_weights = accumulate A weights
      in if length cum_weights \<noteq> n then Inl ValueError
         else if cum_weights = [] then Inl IndexError
         else let total = fadd A (last cum_weights) (fzero A)
              in if fle A total (fzero A) then Inl ValueError
                 else if \<not> isfinite A total then Inl ValueError
                 else let hi = n - 1;
                          (u, g') = py_random g
                      in Inr (population ! bisect A cum_weights (fmul A (of_unit A u) total) 0 hi,
                              g'))"

text \<open>
  \<^verbatim>\<open>random.shuffle(x)\<close>:
  \<^verbatim>\<open>
    for i in reversed(range(1, len(x))):
        j = randbelow(i + 1)
        x[i], x[j] = x[j], x[i]
  \<close>
\<close>

definition swap :: "'a list \<Rightarrow> nat \<Rightarrow> nat \<Rightarrow> 'a list" where
  "swap xs i j = xs[i := xs ! j, j := xs ! i]"

fun shuffle_loop :: "nat \<Rightarrow> 'a list \<Rightarrow> rng \<Rightarrow> 'a list \<times> rng" where
  "shuffle_loop 0 xs g = (xs, g)"
| "shuffle_loop (Suc i) xs g =
     (let (j, g') = randbelow (Suc i + 1) g in shuffle_loop i (swap xs (Suc i) j) g')"

definition shuffle :: "'a list \<Rightarrow> rng \<Rightarrow> 'a list \<times> rng" where
  "shuffle xs g = shuffle_loop (length xs - 1) xs g"

section \<open>fallback_models.py\<close>

subsection \<open>weighted_random_selection\<close>

text \<open>
  \<^verbatim>\<open>
    def weighted_random_selection(items_with_weights):
        items, weights = zip(*items_with_weights)
        total = sum(weights)
        normalized_weights = [w/total for w in weights]
        return random.choices(items, normalized_weights, k=1)[0], normalized_weights
  \<close>
  A table is a list of (label, weight) pairs. On the empty table \<^verbatim>\<open>zip()\<close> yields
  nothing and the unpacking into two names raises \<^verbatim>\<open>ValueError\<close>. On a nonempty table
  whose sum is zero the first division raises \<^verbatim>\<open>ZeroDivisionError\<close>.
\<close>

definition weighted_random_selection ::
  "'w arith \<Rightarrow> ('a \<times> 'w) list \<Rightarrow> rng \<Rightarrow> py_error + (('a \<times> 'w list) \<times> rng)" where
  "weighted_random_selection A items_with_weights g =
     (if items_with_weights = [] then Inl ValueError
      else let items = map fst items_with_weights;
               weights = map snd items_with_weights;
               total = fsum A weights
           in if is_zero A total then Inl ZeroDivisionError
              else let normalized_weights = map (\<lambda>w. fdiv A w total) weights
                   in case choices A items normalized_weights g of
                        Inl e \<Rightarrow> Inl e
                      | Inr (x, g') \<Rightarrow> Inr ((x, normalized_weights), g'))"

text \<open>
  \<open>normalized_total\<close> is the value of \<^verbatim>\<open>total\<close> inside \<^verbatim>\<open>random.choices\<close> when the sampler
  calls it on a nonempty table: the last running sum of the normalised weights, plus
  \<^verbatim>\<open>0.0\<close>.
\<close>

definition normalized_total :: "'w arith \<Rightarrow> ('a \<times> 'w) list \<Rightarrow> 'w" where
  "normalized_total A items_with_weights =
     (let weights = map snd items_with_weights;
          total = fsum A weights;
          normalized_weights = map (\<lambda>w. fdiv A w total) weights
      in fadd A (last (accumulate A normalized_weights)) (fzero A))"

text \<open>
  The dictionaries that the providers return are association lists of field name and
  value, in the order of the dictionary literal.
\<close>

datatype py_value =
    PyStr string
  | PyFloat real
  | PyInt int
  | PyBool bool
  | PyDict "(string \<times> py_value) list"

subsection \<open>The three providers\<close>

definition face_shapes :: "(string \<times> real) list" where
  "face_shapes =
     [(''Oval'', 0.25), (''Round'', 0.20), (''Square'', 0.15), (''Heart'', 0.15),
      (''Diamond'', 0.10), (''Rectangle'', 0.10), (''Triangle'', 0.05)]"

text \<open>
  \<^verbatim>\<open>fallback_face_shape_analysis(image_data)\<close>: the label, then the confidence, then the
  six measurements are drawn, in this order. The image is not read.
\<close>

definition fallback_face_shape_analysis ::
  "'img \<Rightarrow> rng \<Rightarrow> py_error + ((string \<times> py_value) list \<times> rng)" where
  "fallback_face_shape_analysis image_data g0 =
     (case weighted_random_selection real_arith face_shapes g0 of
        Inl e \<Rightarrow> Inl e
      | Inr ((selected_shape, _), g1) \<Rightarrow>
          let (confidence, g2) = uniform 0.75 0.95 g1;
              (face_width, g3) = uniform 120 160 g2;
              (face_height, g4) = uniform 180 220 g3;
              (jaw_width, g5) = uniform 110 150 g4;
              (forehead_width, g6) = uniform 115 155 g5;
              (chin_prominence, g7) = uniform 0.1 0.5 g6;
              (cheekbone_width, g8) = uniform 120 165 g7;
              features =
                [(''face_width'', PyFloat face_width),
                 (''face_height'', PyFloat face_height),
                 (''jaw_width'', PyFloat jaw_width),
                 (''forehead_width'', PyFloat forehead_width),
                 (''chin_prominence'', PyFloat chin_prominence),
                 (''cheekbone_width'', PyFloat cheekbone_width)]
          in Inr ([(''face_shape'', PyStr selected_shape),
                   (''confidence'', PyFloat confidence),
                   (''features'', PyDict features),
                   (''using_fallback'', PyBool True)], g8))"

text \<open>
  \<^verbatim>\<open>str.lower()\<close> and \<^verbatim>\<open>str.upper()\<close> on ASCII: the 26 letters are mapped, every other
  character is kept.
\<close>

definition lower_char :: "char \<Rightarrow> char" where
  "lower_char c =
     (let n = of_char c :: nat in if 65 \<le> n \<and> n \<le> 90 then char_of (n + 32) else c)"

definition upper_char :: "char \<Rightarrow> char" where
  "upper_char c =
     (let n = of_char c :: nat in if 97 \<le> n \<and> n \<le> 122 then char_of (n - 32) else c)"

definition lower :: "string \<Rightarrow> string" where
  "lower s = map lower_char s"

definition upper :: "string \<Rightarrow> string" where
  "upper s = map upper_char s"

definition male_body_shapes :: "(string \<times> real) list" where
  "male_body_shapes =
     [(''Trapezoid'', 0.3), (''Rectangle'', 0.25), (''Triangle'', 0.2), (''Oval'', 0.15),
      (''Inverted Triangle'', 0.1)]"

definition female_body_shapes :: "(string \<times> real) list" where
  "female_body_shapes =
     [(''Hourglass'', 0.25), (''Rectangle'', 0.25), (''Pear'', 0.20), (''Apple'', 0.15),
      (''Inverted Triangle'', 0.15)]"

text \<open>
  \<^verbatim>\<open>fallback_body_shape_analysis(image_data, gender: str = "female")\<close>. The second argument
  is \<open>None\<close> when the caller omits it, and the default of the signature applies; a
  supplied argument is a string, as the annotation says.
  \<^verbatim>\<open>
    if gender.lower() in ["male", "m"]:
        body_shapes = [("Trapezoid", 0.3), ...]
    else:
        body_shapes = [("Hourglass", 0.25), ...]
  \<close>
\<close>

definition body_shapes :: "string \<Rightarrow> (string \<times> real) list" where
  "body_shapes gender =
     (if lower gender \<in> set [''male'', ''m''] then male_body_shapes else female_body_shapes)"

definition fallback_body_shape_analysis ::
  "'img \<Rightarrow> string option \<Rightarrow> rng \<Rightarrow> py_error + ((string \<times> py_value) list \<times> rng)" where
  "fallback_body_shape_analysis image_data gender_arg g0 =
     (let gender = (case gender_arg of None \<Rightarrow> ''female'' | Some s \<Rightarrow> s)
      in case weighted_random_selection real_arith (body_shapes gender) g0 of
           Inl e \<Rightarrow> Inl e
         | Inr ((selected_shape, _), g1) \<Rightarrow>
             let (confidence, g2) = uniform 0.8 0.95 g1;
                 (shoulder_to_waist_ratio, g3) = uniform 0.8 1.4 g2;
                 (waist_to_hip_ratio, g4) = uniform 0.7 1.1 g3;
                 (inseam_to_height_ratio, g5) = uniform 0.4 0.5 g4;
                 (shoulder_width, g6) = uniform 36 50 g5;
                 (hip_width, g7) = uniform 34 48 g6;
                 measurements =
                   [(''shoulder_to_waist_ratio'', PyFloat shoulder_to_waist_ratio),
                    (''waist_to_hip_ratio'', PyFloat waist_to_hip_ratio),
                    (''inseam_to_height_ratio'', PyFloat inseam_to_height_ratio),
                    (''shoulder_width'', PyFloat shoulder_width),
                    (''hip_width'', PyFloat hip_width)]
             in Inr ([(''body_type'', PyStr selected_shape),
                      (''confidence'', PyFloat confidence),
                      (''measurements'', PyDict measurements),
                      (''using_fallback'', PyBool True)], g7))"

subsection \<open>generate_realistic_skin_rgb\<close>

definition base_ranges :: "(string \<times> (int \<times> int) \<times> (int \<times> int) \<times> (int \<times> int)) list" where
  "base_ranges =
     [(''Type I - Very fair'', (240, 255), (220, 240), (200, 225)),
      (''Type II - Fair'', (225, 245), (200, 220), (175, 200)),
      (''Type III - Medium'', (200, 225), (170, 200), (140, 170)),
      (''Type IV - Olive'', (180, 200), (150, 180), (120, 150)),
      (''Type V - Brown'', (150, 180), (120, 150), (90, 120)),
      (''Type VI - Dark brown to black'', (90, 120), (70, 90), (60, 80))]"

definition undertone_adjustments :: "(string \<times> int \<times> int \<times> int) list" where
  "undertone_adjustments =
     [(''Cool'', -10, 0, 10),
      (''Neutral'', 0, 0, 0),
      (''Warm'', 10, 5, -10)]"

text \<open>
  \<^verbatim>\<open>
    (r_min, r_max), (g_min, g_max), (b_min, b_max) = base_ranges[skin_tone]
    r_adj, g_adj, b_adj = undertone_adjustments[undertone]
    r = max(0, min(255, random.randint(r_min, r_max) + r_adj))
    g = max(0, min(255, random.randint(g_min, g_max) + g_adj))
    b = max(0, min(255, random.randint(b_min, b_max) + b_adj))
    return {"r": r, "g": g, "b": b}
  \<close>
  A subscript on a dictionary raises \<^verbatim>\<open>KeyError\<close> when the key is absent.
\<close>

definition generate_realistic_skin_rgb ::
  "string \<Rightarrow> string \<Rightarrow> rng \<Rightarrow> py_error + ((string \<times> py_value) list \<times> rng)" where
  "generate_realistic_skin_rgb skin_tone undertone g0 =
     (case map_of base_ranges skin_tone of
        None \<Rightarrow> Inl KeyError
      | Some ((r_min, r_max), (g_min, g_max), (b_min, b_max)) \<Rightarrow>
          (case map_of undertone_adjustments undertone of
             None \<Rightarrow> Inl KeyError
           | Some (r_adj, g_adj, b_adj) \<Rightarrow>
               (case randint r_min r_max g0 of
                  Inl e \<Rightarrow> Inl e
                | Inr (r_draw, g1) \<Rightarrow>
                    (case randint g_min g_max g1 of
                       Inl e \<Rightarrow> Inl e
                     | Inr (g_draw, g2) \<Rightarrow>
                         (case randint b_min b_max g2 of
                            Inl e \<Rightarrow> Inl e
                          | Inr (b_draw, g3) \<Rightarrow>
                              let r = max 0 (min 255 (r_draw + r_adj));
                                  g = max 0 (min 255 (g_draw + g_adj));
                                  b = max 0 (min 255 (b_draw + b_adj))
                              in Inr ([(''r'', PyInt r), (''g'', PyInt g), (''b'', PyInt b)],
                                      g3))))))"

subsection \<open>fallback_skin_tone_analysis\<close>

definition skin_tones :: "(string \<times> real) list" where
  "skin_tones =
     [(''Type I - Very fair'', 0.1), (''Type II - Fair'', 0.2), (''Type III - Medium'', 0.3),
      (''Type IV - Olive'', 0.2), (''Type V - Brown'', 0.15),
      (''Type VI - Dark brown to black'', 0.05)]"

definition undertones :: "(string \<times> real) list" where
  "undertones = [(''Cool'', 0.3), (''Neutral'', 0.4), (''Warm'', 0.3)]"

text \<open>
  The tone, the undertone and the confidence are drawn in this order; the colour is
  synthesised last, while the result dictionary is built.
\<close>

definition fallback_skin_tone_analysis ::
  "'img \<Rightarrow> rng \<Rightarrow> py_error + ((string \<times> py_value) list \<times> rng)" where
  "fallback_skin_tone_analysis image_data g0 =
     (case weighted_random_selection real_arith skin_tones g0 of
        Inl e \<Rightarrow> Inl e
      | Inr ((selected_tone, _), g1) \<Rightarrow>
          (case weighted_random_selection real_arith undertones g1 of
             Inl e \<Rightarrow> Inl e
           | Inr ((selected_undertone, _), g2) \<Rightarrow>
               let (confidence, g3) = uniform 0.75 0.95 g2
               in (case generate_realistic_skin_rgb selected_tone selected_undertone g3 of
                     Inl e \<Rightarrow> Inl e
                   | Inr (rgb_value, g4) \<Rightarrow>
                       Inr ([(''skin_tone'', PyStr selected_tone),
                             (''undertone'', PyStr selected_undertone),
                             (''confidence'', PyFloat confidence),
                             (''rgb_value'', PyDict rgb_value),
                             (''using_fallback'', PyBool True)], g4))))"

section \<open>main.py\<close>

subsection \<open>generate_recommendation\<close>

text \<open>
  \<^verbatim>\<open>sub in s\<close> on strings: \<open>sub\<close> occurs in \<open>s\<close> as a contiguous block.
\<close>

fun contains :: "string \<Rightarrow> string \<Rightarrow> bool" where
  "contains [] sub = (sub = [])"
| "contains (c # cs) sub = (prefix sub (c # cs) \<or> contains cs sub)"

text \<open>
  \<^verbatim>\<open>sep.join(parts)\<close>.
\<close>

fun join :: "string \<Rightarrow> string list \<Rightarrow> string" where
  "join sep [] = []"
| "join sep [p] = p"
| "join sep (p # q # ps) = p @ sep @ join sep (q # ps)"

text \<open>
  \<^verbatim>\<open>d.get(key, default)\<close> on a dictionary literal.
\<close>

definition dict_get :: "('k \<times> 'v) list \<Rightarrow> 'k \<Rightarrow> 'v \<Rightarrow> 'v" where
  "dict_get d key dflt = (case map_of d key of None \<Rightarrow> dflt | Some v \<Rightarrow> v)"

definition PERSONALITY_STYLES :: "(string \<times> string) list" where
  "PERSONALITY_STYLES =
     [(''ISTJ'',
       ''Classic and traditional styles with high-quality fabrics and timeless designs.''),
      (''ISFJ'',
       ''Comfortable, practical clothing with soft fabrics and subtle patterns.''),
      (''INFJ'',
       ''Minimalist designs with artistic touches and unique accessories.''),
      (''INTJ'',
       ''Sophisticated, sleek styles with clean lines and intellectual appeal.''),
      (''ISTP'',
       ''Functional, durable clothes with a casual edge and practical features.''),
      (''ISFP'',
       ''Artistic, bohemian looks with unique textures and experimental combinations.''),
      (''INFP'',
       ''Romantic, whimsical styles with soft layers and personal meaning.''),
      (''INTP'',
       ''Unconventional, comfortable clothing with intellectual or nerdy references.''),
      (''ESTP'',
       ''Bold, trendy pieces that make a statement and show confidence.''),
      (''ESFP'',
       ''Fun, vibrant outfits with attention-grabbing colors and playful accessories.''),
      (''ENFP'',
       ''Eclectic, creative ensembles with mixed patterns and expressive elements.''),
      (''ENTP'',
       ''Smart-casual looks with unexpected twists and conversation starters.''),
      (''ESTJ'',
       ''Professional, structured outfits with perfect coordination and attention to detail.''),
      (''ESFJ'',
       ''Polished, put-together ensembles that follow current trends appropriately.''),
      (''ENFJ'',
       ''Warm, approachable styles with harmonious colors and elegant touches.''),
      (''ENTJ'',
       ''Power dressing with sharp tailoring and status-signaling elements.'')]"

definition body_recs :: "(string \<times> string) list" where
  "body_recs =
     [(''hourglass'',
       ''Embrace fitted styles that highlight your balanced proportions. Wrap dresses and belted jackets work especially well for your figure.''),
      (''rectangle'',
       ''Create curves with peplum tops, layered outfits, and statement belts to define your waist.''),
      (''triangle'',
       ''Balance your proportions with structured tops, wider necklines, and A-line skirts or dresses.''),
      (''inverted triangle'',
       ''Balance your broader shoulders with full skirts, wide-leg pants, and details at the hip area.''),
      (''oval'',
       ''Define your waistline with empire waists and vertical patterns. V-necks and A-line silhouettes are particularly flattering.'')]"

definition face_recs :: "(string \<times> string) list" where
  "face_recs =
     [(''oval'',
       ''You can wear most styles. Experiment with different necklines and accessories.''),
      (''round'',
       ''Create length with V-necks, long earrings, and hairstyles with height.''),
      (''square'',
       ''Soften your angles with round necklines and curved accessories.''),
      (''heart'',
       ''Balance your wider forehead with wider bottoms and choker necklaces.''),
      (''diamond'',
       ''Highlight your cheekbones with earrings and avoid oversized eyewear.''),
      (''rectangle'',
       ''Soften your jawline with round necklines and curved accessories.'')]"

definition generic_body_rec :: string where
  "generic_body_rec = ''Choose styles that enhance your unique body shape.''"

definition generic_face_rec :: string where
  "generic_face_rec = ''Select necklines and accessories that complement your face shape.''"

definition fair_skin_rec :: string where
  "fair_skin_rec = ''With your fair skin, jewel tones like emerald, sapphire, and ruby will create stunning contrast. Soft pastels also complement your complexion beautifully.''"

definition medium_skin_rec :: string where
  "medium_skin_rec = ''Your medium skin tone works well with both warm and cool colors. Rich hues like olive green, teal, and coral pink are particularly flattering.''"

definition olive_skin_rec :: string where
  "olive_skin_rec = ''Your olive skin tone is complemented by earthy colors like terracotta, mustard, and olive green, as well as vibrant jewel tones.''"

definition deep_skin_rec :: string where
  "deep_skin_rec = ''Your deep skin tone is enhanced by bright, vibrant colors and rich jewel tones. White and cream create beautiful contrast.''"

definition generic_rec :: string where
  "generic_rec = ''Based on your unique characteristics, we recommend exploring styles that express your individuality while enhancing your natural features. Consider consulting with a personal stylist for more tailored advice.''"

text \<open>
  \<open>recommendation_parts\<close> is the list \<^verbatim>\<open>parts\<close> when the function reaches
  \<^verbatim>\<open># Combine all recommendations\<close>. A string is true in a condition when it is not
  empty. The argument \<^verbatim>\<open>gender\<close> is not read.
  \<^verbatim>\<open>
    parts = []
    if body_type:
        parts.append(body_recs.get(body_type.lower(), "Choose styles ..."))
    if face_shape:
        parts.append(face_recs.get(face_shape.lower(), "Select necklines ..."))
    if skin_tone:
        if "I" in skin_tone or "II" in skin_tone: parts.append("With your fair skin, ...")
        elif "III" in skin_tone: parts.append("Your medium skin tone ...")
        elif "IV" in skin_tone: parts.append("Your olive skin tone ...")
        else: parts.append("Your deep skin tone ...")
    if mbti and mbti.upper() in PERSONALITY_STYLES:
        parts.append(f"Your {mbti.upper()} personality suggests: {PERSONALITY_STYLES[mbti.upper()]}")
  \<close>
\<close>

definition recommendation_parts ::
  "string \<Rightarrow> string \<Rightarrow> string \<Rightarrow> string \<Rightarrow> string \<Rightarrow> string list" where
  "recommendation_parts gender body_type face_shape mbti skin_tone =
     (let parts = [];
          parts = (if body_type \<noteq> []
                   then parts @ [dict_get body_recs (lower body_type) generic_body_rec]
                   else parts);
          parts = (if face_shape \<noteq> []
                   then parts @ [dict_get face_recs (lower face_shape) generic_face_rec]
                   else parts);
          parts = (if skin_tone \<noteq> [] then
                     (if contains skin_tone ''I'' \<or> contains skin_tone ''II''
                      then parts @ [fair_skin_rec]
                      else if contains skin_tone ''III'' then parts @ [medium_skin_rec]
                      else if contains skin_tone ''IV'' then parts @ [olive_skin_rec]
                      else parts @ [deep_skin_rec])
                   else parts);
          parts = (if mbti \<noteq> [] then
                     (case map_of PERSONALITY_STYLES (upper mbti) of
                        None \<Rightarrow> parts
                      | Some style \<Rightarrow>
                          parts @ [''Your '' @ upper mbti @ '' personality suggests: '' @ style])
                   else parts)
      in parts)"

text \<open>
  \<^verbatim>\<open>
    if parts: full_rec = " ".join(parts)
    else: full_rec = "Based on your unique characteristics, ..."
    return full_rec
  \<close>
\<close>

definition generate_recommendation ::
  "string \<Rightarrow> string \<Rightarrow> string \<Rightarrow> string \<Rightarrow> string \<Rightarrow> string" where
  "generate_recommendation gender body_type face_shape mbti skin_tone =
     (let parts = recommendation_parts gender body_type face_shape mbti skin_tone
      in if parts \<noteq> [] then join '' '' parts else generic_rec)"

subsection \<open>filter_products\<close>

text \<open>
  A product is a row of the catalogue as \<^verbatim>\<open>csv.DictReader\<close> yields it: a dictionary from
  column name to field, where the field is a string, or \<^verbatim>\<open>None\<close> when the row of the file
  is shorter than its header. The catalogue \<^verbatim>\<open>PRODUCTS\<close> is a module global, loaded once
  from a file; it is a parameter here.

  A string of the catalogue or of the request is arbitrary Unicode text, given here by
  its bytes; \<^verbatim>\<open>str.lower\<close> on such text follows the Unicode case tables and is the
  parameter \<open>str_lower\<close>.
  \<^verbatim>\<open>
    filtered = PRODUCTS.copy()
    if gender:
        filtered = [p for p in filtered if p.get("gender", "").lower() == gender.lower()]
    if len(filtered) < 3:
        filtered = PRODUCTS.copy()
    random.shuffle(filtered)
    return filtered
  \<close>
\<close>

type_synonym product = "string \<rightharpoonup> string option"

text \<open>
  \<^verbatim>\<open>p.get("gender", "")\<close>: the field, the empty string when the row has no such column.
\<close>

definition get_gender :: "product \<Rightarrow> string option" where
  "get_gender p = (case p ''gender'' of None \<Rightarrow> Some [] | Some field \<Rightarrow> field)"

text \<open>
  The list comprehension. It visits the rows in order; \<^verbatim>\<open>.lower()\<close> on a field that is
  \<^verbatim>\<open>None\<close> raises \<^verbatim>\<open>AttributeError\<close>.
\<close>

fun filtered_by_gender ::
  "(string \<Rightarrow> string) \<Rightarrow> string \<Rightarrow> product list \<Rightarrow> py_error + product list" where
  "filtered_by_gender str_lower gender [] = Inr []"
| "filtered_by_gender str_lower gender (p # ps) =
     (case get_gender p of
        None \<Rightarrow> Inl AttributeError
      | Some v \<Rightarrow>
          (case filtered_by_gender str_lower gender ps of
             Inl e \<Rightarrow> Inl e
           | Inr rest \<Rightarrow> Inr (if str_lower v = str_lower gender then p # rest else rest)))"

text \<open>
  The test of the comprehension on a row whose gender field is a string: the field and
  the gender are equal after lowering.
\<close>

definition gender_matches :: "(string \<Rightarrow> string) \<Rightarrow> string \<Rightarrow> product \<Rightarrow> bool" where
  "gender_matches str_lower gender p =
     (case get_gender p of None \<Rightarrow> False | Some v \<Rightarrow> str_lower v = str_lower gender)"

definition filter_products ::
  "(string \<Rightarrow> string) \<Rightarrow> product list \<Rightarrow> string \<Rightarrow> string \<Rightarrow> string \<Rightarrow> string \<Rightarrow> rng \<Rightarrow>
     py_error + (product list \<times> rng)" where
  "filter_products str_lower PRODUCTS gender body_type skin_tone mbti g =
     (let filtered = PRODUCTS
      in case (if gender \<noteq> [] then filtered_by_gender str_lower gender filtered
               else Inr filtered) of
           Inl e \<Rightarrow> Inl e
         | Inr filtered \<Rightarrow>
             (let filtered = (if length filtered < 3 then PRODUCTS else filtered)
              in Inr (shuffle filtered g)))"

section \<open>Properties of the library models\<close>

lemma random_range: "0 \<le> fst (py_random g) \<and> fst (py_random g) < 1"
proof -
  obtain k g' where k: "rng_next g = (k, g')" by (cases "rng_next g")
  have "real (k mod 2 ^ 53) < 2 ^ 53"
    by (metis mod_less_divisor of_nat_less_iff of_nat_numeral of_nat_power zero_less_numeral zero_less_power)
  then show ?thesis using k by (simp add: py_random_def)
qed

lemma rng_next_constant: "rng_next (constant_rng k) = (k, constant_rng k)"
  by (simp add: rng_next_def constant_rng_def)

lemma length_accumulate_from: "length (accumulate_from A acc ws) = length ws"
  by (induction ws arbitrary: acc) auto

lemma length_accumulate: "length (accumulate A ws) = length ws"
  by (cases ws) (auto simp: length_accumulate_from)

lemma accumulate_from_Nil_iff: "accumulate_from A acc ws = [] \<longleftrightarrow> ws = []"
  by (cases ws) auto

lemma accumulate_Nil_iff: "accumulate A ws = [] \<longleftrightarrow> ws = []"
  by (cases ws) auto

text \<open>
  Whatever the comparison answers, the binary search stays between its bounds.
\<close>

lemma bisect_bounds:
  "lo \<le> hi \<Longrightarrow> lo \<le> bisect A a x lo hi \<and> bisect A a x lo hi \<le> hi"
proof (induction A a x lo hi rule: bisect.induct)
  case (1 A a x lo hi)
  show ?case
  proof (cases "lo < hi")
    case False
    then have "bisect A a x lo hi = lo"
      by (subst bisect.simps) simp
    with "1.prems" show ?thesis by simp
  next
    case True
    define mid where "mid = (lo + hi) div 2"
    have m: "lo \<le> mid" "mid < hi" using True by (auto simp: mid_def)
    show ?thesis
    proof (cases "flt A x (a ! mid)")
      case lt: True
      have "bisect A a x lo hi = bisect A a x lo mid"
        using True lt by (subst bisect.simps) (simp add: mid_def)
      moreover have "lo \<le> bisect A a x lo mid \<and> bisect A a x lo mid \<le> mid"
        using "1.IH"(1) [OF True mid_def lt] m by simp
      ultimately show ?thesis using m by simp
    next
      case ge: False
      have "bisect A a x lo hi = bisect A a x (mid + 1) hi"
        using True ge by (subst bisect.simps) (simp add: mid_def)
      moreover have "mid + 1 \<le> bisect A a x (mid + 1) hi \<and> bisect A a x (mid + 1) hi \<le> hi"
        using "1.IH"(2) [OF True mid_def ge] m by simp
      ultimately show ?thesis using m by simp
    qed
  qed
qed

text \<open>
  With as many weights as items and at least one item, \<open>choices\<close> raises \<^verbatim>\<open>ValueError\<close>
  when the total is not positive or not finite, and returns an element of the
  population otherwise. The length check and the subscripts never fail.
\<close>

lemma choices_cases:
  assumes "length weights = length population" "population \<noteq> []"
  shows "(if fle A (fadd A (last (accumulate A weights)) (fzero A)) (fzero A) \<or>
             \<not> isfinite A (fadd A (last (accumulate A weights)) (fzero A))
          then choices A population weights g = Inl ValueError
          else \<exists>i. i < length population \<and>
                 choices A population weights g = Inr (population ! i, snd (py_random g)))"
proof -
  obtain u g' where u: "py_random g = (u, g')" by (cases "py_random g")
  have ne: "accumulate A weights \<noteq> []" using assms by (auto simp: accumulate_Nil_iff)
  let ?total = "fadd A (last (accumulate A weights)) (fzero A)"
  let ?i = "bisect A (accumulate A weights) (fmul A (of_unit A u) ?total) 0
              (length population - 1)"
  have "?i \<le> length population - 1"
    using bisect_bounds [of 0 "length population - 1"] by simp
  then have i: "?i < length population" using assms(2) by (cases population) auto
  show ?thesis
  proof (cases "fle A ?total (fzero A) \<or> \<not> isfinite A ?total")
    case True
    then have "choices A population weights g = Inl ValueError"
      using assms(1) ne by (auto simp: choices_def Let_def length_accumulate)
    with True show ?thesis by simp
  next
    case False
    then have "choices A population weights g = Inr (population ! ?i, snd (py_random g))"
      using assms(1) ne u by (simp add: choices_def Let_def length_accumulate)
    with False i show ?thesis by auto
  qed
qed

section \<open>The weighted sampler\<close>

text \<open>
  The four ways through the sampler, in every arithmetic: the empty table, the zero sum,
  a normalised total that \<open>choices\<close> refuses, and the draw of a row of the table.
\<close>

lemma weighted_random_selection_cases:
  "(t = [] \<and> weighted_random_selection A t g = Inl ValueError) \<or>
   (t \<noteq> [] \<and> is_zero A (fsum A (map snd t)) \<and>
      weighted_random_selection A t g = Inl ZeroDivisionError) \<or>
   (t \<noteq> [] \<and> \<not> is_zero A (fsum A (map snd t)) \<and>
      (fle A (normalized_total A t) (fzero A) \<or> \<not> isfinite A (normalized_total A t)) \<and>
      weighted_random_selection A t g = Inl ValueError) \<or>
   (t \<noteq> [] \<and> \<not> is_zero A (fsum A (map snd t)) \<and>
      \<not> fle A (normalized_total A t) (fzero A) \<and> isfinite A (normalized_total A t) \<and>
      (\<exists>i. i < length t \<and>
         weighted_random_selection A t g =
           Inr ((fst (t ! i), map (\<lambda>w. fdiv A w (fsum A (map snd t))) (map snd t)),
                snd (py_random g))))"
proof (cases "t = []")
  case True
  then show ?thesis by (simp add: weighted_random_selection_def)
next
  case ne: False
  show ?thesis
  proof (cases "is_zero A (fsum A (map snd t))")
    case True
    with ne show ?thesis by (simp add: weighted_random_selection_def Let_def)
  next
    case nz: False
    let ?nw = "map (\<lambda>w. fdiv A w (fsum A (map snd t))) (map snd t)"
    have nt: "normalized_total A t = fadd A (last (accumulate A ?nw)) (fzero A)"
      by (simp add: normalized_total_def Let_def)
    have w: "weighted_random_selection A t g =
        (case choices A (map fst t) ?nw g of
           Inl e \<Rightarrow> Inl e
         | Inr (x, g') \<Rightarrow> Inr ((x, ?nw), g'))"
      using ne nz by (simp only: weighted_random_selection_def Let_def if_False)
    have c: "(if fle A (normalized_total A t) (fzero A) \<or> \<not> isfinite A (normalized_total A t)
          then choices A (map fst t) ?nw g = Inl ValueError
          else \<exists>i. i < length (map fst t) \<and>
                 choices A (map fst t) ?nw g = Inr (map fst t ! i, snd (py_random g)))"
      unfolding nt using ne by (intro choices_cases) simp_all
    show ?thesis
    proof (cases "fle A (normalized_total A t) (fzero A) \<or> \<not> isfinite A (normalized_total A t)")
      case True
      with c have "choices A (map fst t) ?nw g = Inl ValueError" by simp
      with w have "weighted_random_selection A t g = Inl ValueError" by simp
      with ne nz True show ?thesis by simp
    next
      case False
      with c obtain i where i: "i < length t"
        "choices A (map fst t) ?nw g = Inr (map fst t ! i, snd (py_random g))" by auto
      with w have "weighted_random_selection A t g = Inr ((fst (t ! i), ?nw), snd (py_random g))"
        by simp
      with ne nz False i(1) show ?thesis by blast
    qed
  qed
qed

text \<open>
  In the exact arithmetic the running sums end in the sum, and the normalised weights of
  a table with a sum other than \<open>0\<close> sum to \<open>1\<close>, whatever the sign of the sum.
\<close>

lemma last_accumulate_from_real:
  "ws \<noteq> [] \<Longrightarrow> last (accumulate_from real_arith acc ws) = acc + sum_list ws"
proof (induction ws arbitrary: acc)
  case Nil
  then show ?case by simp
next
  case (Cons w ws)
  show ?case
  proof (cases ws)
    case Nil
    then show ?thesis by (simp add: real_arith_def)
  next
    case (Cons v vs)
    with Cons.IH [of "acc + w"] show ?thesis by (simp add: real_arith_def)
  qed
qed

lemma last_accumulate_real: "ws \<noteq> [] \<Longrightarrow> last (accumulate real_arith ws) = sum_list ws"
proof (cases ws)
  case Nil
  assume "ws \<noteq> []"
  with Nil show ?thesis by simp
next
  case (Cons v vs)
  then show ?thesis
    by (cases "vs = []") (auto simp: last_accumulate_from_real accumulate_from_Nil_iff)
qed

lemma sum_list_normalized:
  "sum_list (map (\<lambda>w. w / c) ws) = sum_list ws / (c::real)"
  by (induction ws) (auto simp: add_divide_distrib)

lemma normalized_total_real:
  assumes "t \<noteq> []" "sum_list (map snd t) \<noteq> 0"
  shows "normalized_total real_arith t = 1"
proof -
  have "normalized_total real_arith t =
      last (accumulate real_arith (map (\<lambda>w. w / sum_list (map snd t)) (map snd t)))"
    by (simp add: normalized_total_def real_arith_def Let_def)
  also have "\<dots> = sum_list (map (\<lambda>w. w / sum_list (map snd t)) (map snd t))"
    using assms(1) by (intro last_accumulate_real) simp
  also have "\<dots> = 1"
    using assms(2) sum_list_normalized [of "sum_list (map snd t)" "map snd t"] by simp
  finally show ?thesis .
qed

lemma weighted_random_selection_returns:
  assumes "t \<noteq> []" "sum_list (map snd t) \<noteq> 0"
  shows "\<exists>i g'. i < length t \<and>
           weighted_random_selection real_arith t g =
             Inr ((fst (t ! i), map (\<lambda>w. w / sum_list (map snd t)) (map snd t)), g')"
proof -
  have z: "\<not> is_zero real_arith (fsum real_arith (map snd t))"
    using assms(2) by (simp add: real_arith_def)
  have n: "\<not> fle real_arith (normalized_total real_arith t) (fzero real_arith)"
    "isfinite real_arith (normalized_total real_arith t)"
    using normalized_total_real [OF assms] by (simp_all add: real_arith_def)
  from weighted_random_selection_cases [of t real_arith g] assms(1) z n
  obtain i where "i < length t"
    "weighted_random_selection real_arith t g =
       Inr ((fst (t ! i),
             map (\<lambda>w. fdiv real_arith w (fsum real_arith (map snd t))) (map snd t)),
            snd (py_random g))"
    by auto
  then show ?thesis by (auto simp: real_arith_def)
qed

text \<open>
  Claim C1, as stated: the sampler fails with \<^verbatim>\<open>InvalidWeightsError\<close> exactly when the
  table is empty or the sum of the weights is not positive, and never on a nonempty
  table with a positive sum. It does not hold, in either direction. The table with the
  one row \<open>(a, -1.0)\<close> has the sum \<open>-1.0\<close>, its normalised weight is \<open>1.0\<close>, and the sampler
  returns \<open>a\<close>. The table with two rows of weight \<open>2\<^sup>1\<^sup>0\<^sup>2\<^sup>3\<close> has a positive sum, which
  overflows; both normalised weights are \<open>0.0\<close>, and \<^verbatim>\<open>random.choices\<close> raises \<^verbatim>\<open>ValueError\<close>.
\<close>

theorem negative_total_is_sampled:
  "float_lt (fsum float_arith [Fin (- 1)]) (Fin 0) \<and>
   map_sum id fst (weighted_random_selection float_arith [(''a'', Fin (- 1))] (constant_rng 0)) =
     Inr (''a'', [Fin 1]) \<and>
   float_lt (Fin 0) (fsum float_arith [Fin (2 ^ 1023), Fin (2 ^ 1023)]) \<and>
   weighted_random_selection float_arith [(''a'', Fin (2 ^ 1023)), (''b'', Fin (2 ^ 1023))]
     (constant_rng 0) = Inl ValueError"
proof -
  have 1: "float_lt (fsum float_arith [Fin (- 1)]) (Fin 0)"
    by (simp add: float_arith_def float_add_def float_lt_def overflow_def)
  have 2: "map_sum id fst
      (weighted_random_selection float_arith [(''a'', Fin (- 1))] (constant_rng 0)) =
     Inr (''a'', [Fin 1])"
    by (simp add: weighted_random_selection_def choices_def py_random_def rng_next_constant
        bisect.simps float_arith_def float_add_def float_div_def float_le_def float_lt_def
        float_isfinite_def overflow_def)
  have 3: "float_lt (Fin 0) (fsum float_arith [Fin (2 ^ 1023), Fin (2 ^ 1023)])"
    by (simp add: float_arith_def float_add_def float_lt_def overflow_def)
  have 4: "weighted_random_selection float_arith
      [(''a'', Fin (2 ^ 1023)), (''b'', Fin (2 ^ 1023))] (constant_rng 0) = Inl ValueError"
    by (simp add: weighted_random_selection_def choices_def float_arith_def float_add_def
        float_div_def float_le_def float_lt_def float_isfinite_def overflow_def)
  from 1 2 3 4 show ?thesis by blast
qed

text \<open>
  Claim C1, amended: in every floating-point arithmetic the sampler fails in exactly
  three cases, and never with an error type of its own. It raises \<^verbatim>\<open>ValueError\<close> on the
  empty table (the unpacking), \<^verbatim>\<open>ZeroDivisionError\<close> on a nonempty table whose computed
  sum of weights is zero (the normalisation), and \<^verbatim>\<open>ValueError\<close> on a nonempty table with
  a nonzero sum whose normalised weights accumulate to a total that is not positive or
  not finite (the check of \<^verbatim>\<open>random.choices\<close>). In every other case it returns. The sign
  of the sum is not tested.
\<close>

theorem weighted_random_selection_fails_iff:
  "((weighted_random_selection A t g = Inl ValueError) \<longleftrightarrow>
      (t = [] \<or>
       (\<not> is_zero A (fsum A (map snd t)) \<and>
        (fle A (normalized_total A t) (fzero A) \<or> \<not> isfinite A (normalized_total A t))))) \<and>
   ((weighted_random_selection A t g = Inl ZeroDivisionError) \<longleftrightarrow>
      (t \<noteq> [] \<and> is_zero A (fsum A (map snd t)))) \<and>
   ((\<exists>r. weighted_random_selection A t g = Inr r) \<longleftrightarrow>
      (t \<noteq> [] \<and> \<not> is_zero A (fsum A (map snd t)) \<and>
       \<not> fle A (normalized_total A t) (fzero A) \<and> isfinite A (normalized_total A t))) \<and>
   weighted_random_selection A t g \<noteq> Inl KeyError \<and>
   weighted_random_selection A t g \<noteq> Inl IndexError \<and>
   weighted_random_selection A t g \<noteq> Inl AttributeError"
  using weighted_random_selection_cases [of t A g] by auto

theorem weighted_random_selection_fails_iff_witness:
  "(\<exists>r. weighted_random_selection float_arith [(''Oval'', Fin (1 / 4)), (''Round'', Fin (3 / 4))]
          (constant_rng 0) = Inr r) \<and>
   weighted_random_selection float_arith ([] :: (string \<times> py_float) list) (constant_rng 0)
     = Inl ValueError \<and>
   weighted_random_selection float_arith [(''Oval'', Fin 1), (''Round'', Fin (- 1))]
     (constant_rng 0) = Inl ZeroDivisionError \<and>
   weighted_random_selection float_arith [(''Oval'', PosInf)] (constant_rng 0) = Inl ValueError"
proof -
  have n1: "normalized_total float_arith [(''Oval'', Fin (1 / 4)), (''Round'', Fin (3 / 4))] = Fin 1"
    by (simp add: normalized_total_def float_arith_def float_add_def float_div_def overflow_def)
  have n2: "normalized_total float_arith [(''Oval'', PosInf)] = NaN"
    by (simp add: normalized_total_def float_arith_def float_add_def float_div_def overflow_def)
  have s1: "fsum float_arith [Fin (1 / 4), Fin (3 / 4)] = Fin 1"
    "fsum float_arith [Fin 1, Fin (- 1)] = Fin 0"
    "fsum float_arith [PosInf] = PosInf"
    by (simp_all add: float_arith_def float_add_def overflow_def)
  have a: "is_zero float_arith = (\<lambda>x. x = Fin 0)" "fzero float_arith = Fin 0"
    "fle float_arith = float_le" "isfinite float_arith = float_isfinite"
    by (simp_all add: float_arith_def)
  from weighted_random_selection_fails_iff
         [of float_arith "[(''Oval'', Fin (1 / 4)), (''Round'', Fin (3 / 4))]" "constant_rng 0"]
  have 1: "\<exists>r. weighted_random_selection float_arith
      [(''Oval'', Fin (1 / 4)), (''Round'', Fin (3 / 4))] (constant_rng 0) = Inr r"
    by (simp add: n1 s1 a float_le_def float_lt_def float_isfinite_def)
  from weighted_random_selection_fails_iff
         [of float_arith "[] :: (string \<times> py_float) list" "constant_rng 0"]
  have 2: "weighted_random_selection float_arith ([] :: (string \<times> py_float) list)
      (constant_rng 0) = Inl ValueError"
    by simp
  from weighted_random_selection_fails_iff
         [of float_arith "[(''Oval'', Fin 1), (''Round'', Fin (- 1))]" "constant_rng 0"]
  have 3: "weighted_random_selection float_arith [(''Oval'', Fin 1), (''Round'', Fin (- 1))]
     (constant_rng 0) = Inl ZeroDivisionError"
    by (simp add: s1 a)
  from weighted_random_selection_fails_iff [of float_arith "[(''Oval'', PosInf)]" "constant_rng 0"]
  have 4: "weighted_random_selection float_arith [(''Oval'', PosInf)] (constant_rng 0)
      = Inl ValueError"
    by (simp add: n2 s1 a float_le_def float_isfinite_def)
  from 1 2 3 4 show ?thesis by blast
qed



text \<open>
  In the exact arithmetic every nonempty table with a positive sum is sampled.
\<close>

lemma positive_sum_is_sampled_exactly:
  assumes "t \<noteq> []" "0 < sum_list (map snd t)"
  shows "\<exists>label ws g'. weighted_random_selection real_arith t g = Inr ((label, ws), g') \<and>
           label \<in> fst ` set t"
proof -
  from weighted_random_selection_returns [of t g] assms
  obtain i g' where i: "i < length t"
    "weighted_random_selection real_arith t g =
       Inr ((fst (t ! i), map (\<lambda>w. w / sum_list (map snd t)) (map snd t)), g')"
    by auto
  have "fst (t ! i) \<in> fst ` set t" using i(1) by simp
  with i(2) show ?thesis by blast
qed

text \<open>
  In \<open>float_arith\<close>, which overflows but does not round, every nonempty table of positive
  weights whose sum stays below the overflow threshold is sampled.
\<close>

lemma overflow_Fin:
  "- (2 ^ 1024 - 2 ^ 970) < x \<Longrightarrow> x < 2 ^ 1024 - 2 ^ 970 \<Longrightarrow> overflow x = Fin x"
  by (simp add: overflow_def)

lemma threshold_gt_1: "(1::real) < 2 ^ 1024 - 2 ^ 970"
  by simp

lemma foldl_float_add_positive:
  assumes "0 \<le> acc" "\<forall>w \<in> set ws. 0 < w" "acc + sum_list ws < 2 ^ 1024 - 2 ^ 970"
  shows "foldl float_add (Fin acc) (map Fin ws) = Fin (acc + sum_list ws)"
  using assms
proof (induction ws arbitrary: acc)
  case Nil
  then show ?case by simp
next
  case (Cons w ws)
  have nn: "0 \<le> sum_list ws" using Cons.prems(2) by (intro sum_list_nonneg) auto
  have w: "0 < w" using Cons.prems(2) by simp
  have "acc + w < 2 ^ 1024 - 2 ^ 970" using Cons.prems(3) nn by simp
  moreover have "- (2 ^ 1024 - 2 ^ 970) < acc + w" using Cons.prems(1) w by simp
  ultimately have "float_add (Fin acc) (Fin w) = Fin (acc + w)"
    by (simp add: float_add_def overflow_Fin del: power_numeral)
  moreover have "foldl float_add (Fin (acc + w)) (map Fin ws) = Fin (acc + w + sum_list ws)"
    using Cons.prems w by (intro Cons.IH) (auto simp: add.assoc)
  ultimately show ?case by (simp add: add.assoc)
qed

lemma last_accumulate_from_float:
  assumes "0 \<le> acc" "\<forall>w \<in> set ws. 0 < w" "acc + sum_list ws < 2 ^ 1024 - 2 ^ 970" "ws \<noteq> []"
  shows "last (accumulate_from float_arith (Fin acc) (map Fin ws)) = Fin (acc + sum_list ws)"
  using assms
proof (induction ws arbitrary: acc)
  case Nil
  then show ?case by simp
next
  case (Cons w ws)
  have nn: "0 \<le> sum_list ws" using Cons.prems(2) by (intro sum_list_nonneg) auto
  have w: "0 < w" using Cons.prems(2) by simp
  have "acc + w < 2 ^ 1024 - 2 ^ 970" using Cons.prems(3) nn by simp
  moreover have "- (2 ^ 1024 - 2 ^ 970) < acc + w" using Cons.prems(1) w by simp
  ultimately have a: "fadd float_arith (Fin acc) (Fin w) = Fin (acc + w)"
    by (simp add: float_arith_def float_add_def overflow_Fin del: power_numeral)
  show ?case
  proof (cases "ws = []")
    case True
    with a show ?thesis by simp
  next
    case False
    have "last (accumulate_from float_arith (Fin (acc + w)) (map Fin ws)) =
        Fin (acc + w + sum_list ws)"
      using Cons.prems w False by (intro Cons.IH) (auto simp: add.assoc)
    with a False show ?thesis by (simp add: accumulate_from_Nil_iff add.assoc)
  qed
qed

lemma last_accumulate_float:
  assumes "\<forall>w \<in> set ws. 0 < w" "sum_list ws < 2 ^ 1024 - 2 ^ 970" "ws \<noteq> []"
  shows "last (accumulate float_arith (map Fin ws)) = Fin (sum_list ws)"
proof (cases ws)
  case Nil
  with assms(3) show ?thesis by simp
next
  case (Cons v vs)
  show ?thesis
  proof (cases "vs = []")
    case True
    with Cons show ?thesis by simp
  next
    case False
    have "last (accumulate_from float_arith (Fin v) (map Fin vs)) = Fin (v + sum_list vs)"
      using assms Cons False by (intro last_accumulate_from_float) auto
    with Cons False show ?thesis by (simp add: accumulate_from_Nil_iff)
  qed
qed

lemma member_le_sum_list_real:
  "\<forall>w \<in> set ws. 0 < (w::real) \<Longrightarrow> x \<in> set ws \<Longrightarrow> x \<le> sum_list ws"
proof (induction ws)
  case Nil
  then show ?case by simp
next
  case (Cons w ws)
  have nn: "0 \<le> sum_list ws" using Cons.prems(1) by (intro sum_list_nonneg) auto
  show ?case
  proof (cases "x = w")
    case True
    with nn show ?thesis by simp
  next
    case False
    with Cons.prems have "x \<in> set ws" by simp
    with Cons.IH Cons.prems(1) have "x \<le> sum_list ws" by simp
    moreover have "0 < w" using Cons.prems(1) by simp
    ultimately show ?thesis by simp
  qed
qed

lemma positive_table_is_sampled:
  assumes "ws \<noteq> []" "\<forall>w \<in> set ws. 0 < w" "sum_list ws < 2 ^ 1024 - 2 ^ 970"
    and "length labels = length ws"
  shows "\<exists>r. weighted_random_selection float_arith (zip labels (map Fin ws)) g = Inr r"
proof -
  let ?t = "zip labels (map Fin ws)"
  let ?s = "sum_list ws"
  have ne: "?t \<noteq> []" using assms(1,4) by (cases labels; cases ws) auto
  have sn: "map snd ?t = map Fin ws" using assms(4) by simp
  have pos: "0 < ?s"
  proof (cases ws)
    case Nil
    with assms(1) show ?thesis by simp
  next
    case (Cons v vs)
    have "0 \<le> sum_list vs" using assms(2) Cons by (intro sum_list_nonneg) auto
    moreover have "0 < v" using assms(2) Cons by simp
    ultimately show ?thesis using Cons by simp
  qed
  have fs: "fsum float_arith (map Fin ws) = Fin ?s"
    using foldl_float_add_positive [of 0 ws] assms(2,3) by (simp add: float_arith_def)
  have le: "\<forall>w \<in> set ws. w \<le> ?s"
    using assms(2) member_le_sum_list_real [of ws] by blast
  have nw: "map (\<lambda>w. fdiv float_arith w (Fin ?s)) (map Fin ws) = map Fin (map (\<lambda>w. w / ?s) ws)"
  proof -
    have "float_div (Fin w) (Fin ?s) = Fin (w / ?s)" if "w \<in> set ws" for w
    proof -
      have "0 < w / ?s" "w / ?s \<le> 1" using that assms(2) le pos by auto
      then have "- (2 ^ 1024 - 2 ^ 970) < w / ?s" "w / ?s < 2 ^ 1024 - 2 ^ 970"
        using threshold_gt_1 by linarith+
      then show ?thesis by (simp add: float_div_def overflow_Fin del: power_numeral)
    qed
    then show ?thesis by (simp add: float_arith_def)
  qed
  have one: "sum_list (map (\<lambda>w. w / ?s) ws) = 1"
    using pos sum_list_normalized [of ?s ws] by simp
  have "last (accumulate float_arith (map Fin (map (\<lambda>w. w / ?s) ws))) =
      Fin (sum_list (map (\<lambda>w. w / ?s) ws))"
    using assms(1,2) pos one threshold_gt_1 by (intro last_accumulate_float) auto
  then have l1: "last (accumulate float_arith (map Fin (map (\<lambda>w. w / ?s) ws))) = Fin 1"
    using one by simp
  have "normalized_total float_arith ?t =
      fadd float_arith
        (last (accumulate float_arith
           (map (\<lambda>w. fdiv float_arith w (fsum float_arith (map snd ?t))) (map snd ?t))))
        (fzero float_arith)"
    by (simp only: normalized_total_def Let_def)
  also have "\<dots> = fadd float_arith (Fin 1) (fzero float_arith)"
    unfolding sn fs nw l1 ..
  also have "\<dots> = Fin 1"
    by (simp add: float_arith_def float_add_def overflow_def)
  finally have nt: "normalized_total float_arith ?t = Fin 1" .
  have z: "\<not> is_zero float_arith (fsum float_arith (map snd ?t))"
    using sn fs pos by (simp add: float_arith_def)
  have g: "\<not> fle float_arith (normalized_total float_arith ?t) (fzero float_arith)"
    "isfinite float_arith (normalized_total float_arith ?t)"
    unfolding nt by (simp_all add: float_arith_def float_le_def float_lt_def float_isfinite_def)
  from weighted_random_selection_cases [of ?t float_arith g] ne z g
  show ?thesis by auto
qed

section \<open>The draws of the providers\<close>

lemma uniform_range:
  assumes "a \<le> b"
  shows "a \<le> fst (uniform a b g) \<and> fst (uniform a b g) \<le> b"
proof -
  obtain u g' where u: "py_random g = (u, g')" by (cases "py_random g")
  with random_range [of g] have r: "0 \<le> u" "u < 1" by auto
  have "0 \<le> (b - a) * u" using assms r(1) by simp
  moreover have "(b - a) * u \<le> (b - a) * 1"
    using assms r(2) by (intro mult_left_mono) auto
  ultimately show ?thesis using u by (simp add: uniform_def)
qed

text \<open>
  The bounds survive rounding: for every monotone rounding that keeps \<open>0\<close>, the two
  end points and their difference, the rounded expression stays between the end points.
  (The difference of two floating-point numbers \<open>a \<le> b \<le> 2a\<close> is computed exactly; the
  end points of the three confidence ranges are such pairs.)
\<close>

lemma uniform_rounded_range:
  assumes "mono rnd" "rnd 0 = 0" "rnd a = a" "rnd b = b" "rnd (b - a) = b - a" "a \<le> b"
  shows "a \<le> fst (uniform_rounded rnd a b g) \<and> fst (uniform_rounded rnd a b g) \<le> b"
proof -
  obtain u g' where u: "py_random g = (u, g')" by (cases "py_random g")
  with random_range [of g] have r: "0 \<le> u" "u < 1" by auto
  let ?p = "rnd (rnd (b - a) * u)"
  have lo: "0 \<le> (b - a) * u" using assms(6) r(1) by simp
  have hi: "(b - a) * u \<le> b - a"
    using assms(6) r(2) mult_left_mono [of u 1 "b - a"] by simp
  have "rnd 0 \<le> rnd ((b - a) * u)" using assms(1) lo by (rule monoD)
  then have p0: "0 \<le> ?p" using assms(2,5) by simp
  have "rnd ((b - a) * u) \<le> rnd (b - a)" using assms(1) hi by (rule monoD)
  then have p1: "?p \<le> b - a" using assms(5) by simp
  have "a \<le> a + ?p" using p0 by simp
  with assms(1) have "rnd a \<le> rnd (a + ?p)" by (rule monoD)
  moreover have "a + ?p \<le> b" using p1 by simp
  with assms(1) have "rnd (a + ?p) \<le> rnd b" by (rule monoD)
  ultimately show ?thesis using u assms(3,4) by (simp add: uniform_rounded_def)
qed

lemma randint_range:
  assumes "a \<le> b"
  shows "\<exists>k g'. randint a b g = Inr (k, g') \<and> a \<le> k \<and> k \<le> b"
proof -
  obtain n g' where n: "rng_next g = (n, g')" by (cases "rng_next g")
  have "n mod nat (b + 1 - a) < nat (b + 1 - a)" using assms by simp
  then have "a + int (n mod nat (b + 1 - a)) \<le> b" using assms by linarith
  then show ?thesis using assms n by (simp add: randint_def randbelow_def)
qed

section \<open>The fixed tables\<close>

lemma face_shapes_total: "face_shapes \<noteq> [] \<and> sum_list (map snd face_shapes) = 1"
  by (simp add: face_shapes_def)

lemma male_body_shapes_total:
  "male_body_shapes \<noteq> [] \<and> sum_list (map snd male_body_shapes) = 1"
  by (simp add: male_body_shapes_def)

lemma female_body_shapes_total:
  "female_body_shapes \<noteq> [] \<and> sum_list (map snd female_body_shapes) = 1"
  by (simp add: female_body_shapes_def)

lemma body_shapes_total:
  "body_shapes gender \<noteq> [] \<and> sum_list (map snd (body_shapes gender)) = 1"
  using male_body_shapes_total female_body_shapes_total by (simp add: body_shapes_def)

lemma skin_tones_total: "skin_tones \<noteq> [] \<and> sum_list (map snd skin_tones) = 1"
  by (simp add: skin_tones_def)

lemma undertones_total: "undertones \<noteq> [] \<and> sum_list (map snd undertones) = 1"
  by (simp add: undertones_def)

lemma fixed_table_sampled:
  assumes "t \<noteq> [] \<and> sum_list (map snd t) = 1"
  shows "\<exists>label ws g'. weighted_random_selection real_arith t g = Inr ((label, ws), g') \<and>
           label \<in> fst ` set t"
proof -
  from assms weighted_random_selection_returns [of t g]
  obtain i g' where i: "i < length t"
    "weighted_random_selection real_arith t g =
       Inr ((fst (t ! i), map (\<lambda>w. w / sum_list (map snd t)) (map snd t)), g')"
    by auto
  have "fst (t ! i) \<in> fst ` set t" using i(1) by simp
  with i(2) show ?thesis by blast
qed

lemma body_shapes_examples:
  "body_shapes ''male'' = male_body_shapes \<and> body_shapes ''MALE'' = male_body_shapes \<and>
   body_shapes ''M'' = male_body_shapes \<and> body_shapes ''female'' = female_body_shapes \<and>
   body_shapes ''man'' = female_body_shapes \<and> body_shapes [] = female_body_shapes"
  by (simp add: body_shapes_def lower_def lower_char_def char_of_def bit_0)

section \<open>The providers\<close>

lemma face_provider:
  "\<exists>label r g'. fallback_face_shape_analysis img g = Inr (r, g') \<and>
     label \<in> fst ` set face_shapes \<and>
     map_of r ''face_shape'' = Some (PyStr label) \<and>
     (\<exists>c. map_of r ''confidence'' = Some (PyFloat c) \<and> 0.75 \<le> c \<and> c \<le> 0.95)"
proof -
  from fixed_table_sampled [OF face_shapes_total, of g]
  obtain label ws g1 where s: "weighted_random_selection real_arith face_shapes g = Inr ((label, ws), g1)"
    "label \<in> fst ` set face_shapes" by blast
  obtain c g2 where c: "uniform 0.75 0.95 g1 = (c, g2)" by (cases "uniform 0.75 0.95 g1")
  with uniform_range [of "0.75" "0.95" g1] have "0.75 \<le> c \<and> c \<le> 0.95" by simp
  with s c show ?thesis
    by (auto simp add: fallback_face_shape_analysis_def Let_def split: prod.splits)
qed

lemma body_provider:
  "\<exists>label ws g1 r g'.
     weighted_random_selection real_arith
       (body_shapes (case gender_arg of None \<Rightarrow> ''female'' | Some s \<Rightarrow> s)) g
        = Inr ((label, ws), g1) \<and>
     label \<in> fst ` set (body_shapes (case gender_arg of None \<Rightarrow> ''female'' | Some s \<Rightarrow> s)) \<and>
     fallback_body_shape_analysis img gender_arg g = Inr (r, g') \<and>
     map_of r ''body_type'' = Some (PyStr label) \<and>
     (\<exists>c. map_of r ''confidence'' = Some (PyFloat c) \<and> 0.8 \<le> c \<and> c \<le> 0.95)"
proof -
  let ?t = "body_shapes (case gender_arg of None \<Rightarrow> ''female'' | Some s \<Rightarrow> s)"
  from fixed_table_sampled [OF body_shapes_total, of _ g]
  obtain label ws g1 where s: "weighted_random_selection real_arith ?t g = Inr ((label, ws), g1)"
    "label \<in> fst ` set ?t" by blast
  obtain c g2 where c: "uniform 0.8 0.95 g1 = (c, g2)" by (cases "uniform 0.8 0.95 g1")
  with uniform_range [of "0.8" "0.95" g1] have "0.8 \<le> c \<and> c \<le> 0.95" by simp
  with s c show ?thesis
    by (auto simp add: fallback_body_shape_analysis_def Let_def split: prod.splits)
qed

section \<open>The colour synthesizer\<close>

lemma base_ranges_valid:
  "map_of base_ranges tone = Some ((a, b), (c, d), (e, f)) \<Longrightarrow> a \<le> b \<and> c \<le> d \<and> e \<le> f"
  by (auto simp: base_ranges_def split: if_splits)

lemma base_ranges_keys:
  "map_of base_ranges tone \<noteq> None \<longleftrightarrow>
     tone \<in> {''Type I - Very fair'', ''Type II - Fair'', ''Type III - Medium'',
             ''Type IV - Olive'', ''Type V - Brown'', ''Type VI - Dark brown to black''}"
  by (simp add: base_ranges_def)

lemma undertone_adjustments_keys:
  "map_of undertone_adjustments undertone \<noteq> None \<longleftrightarrow>
     undertone \<in> {''Cool'', ''Neutral'', ''Warm''}"
  by (simp add: undertone_adjustments_def)

lemma skin_rgb_missing_key:
  "map_of base_ranges tone = None \<or> map_of undertone_adjustments undertone = None \<Longrightarrow>
     generate_realistic_skin_rgb tone undertone g = Inl KeyError"
  by (auto simp: generate_realistic_skin_rgb_def split: option.splits)

lemma skin_rgb_returns:
  assumes "map_of base_ranges tone = Some ((r_min, r_max), (g_min, g_max), (b_min, b_max))"
    and "map_of undertone_adjustments undertone = Some (r_adj, g_adj, b_adj)"
  shows "\<exists>r_draw g_draw b_draw g'.
           r_min \<le> r_draw \<and> r_draw \<le> r_max \<and>
           g_min \<le> g_draw \<and> g_draw \<le> g_max \<and>
           b_min \<le> b_draw \<and> b_draw \<le> b_max \<and>
           generate_realistic_skin_rgb tone undertone g =
             Inr ([(''r'', PyInt (max 0 (min 255 (r_draw + r_adj)))),
                   (''g'', PyInt (max 0 (min 255 (g_draw + g_adj)))),
                   (''b'', PyInt (max 0 (min 255 (b_draw + b_adj))))], g')"
proof -
  from base_ranges_valid [OF assms(1)]
  have v: "r_min \<le> r_max" "g_min \<le> g_max" "b_min \<le> b_max" by auto
  from randint_range [OF v(1), of g]
  obtain r_draw g1 where r: "randint r_min r_max g = Inr (r_draw, g1)"
    "r_min \<le> r_draw" "r_draw \<le> r_max" by blast
  from randint_range [OF v(2), of g1]
  obtain g_draw g2 where gr: "randint g_min g_max g1 = Inr (g_draw, g2)"
    "g_min \<le> g_draw" "g_draw \<le> g_max" by blast
  from randint_range [OF v(3), of g2]
  obtain b_draw g3 where b: "randint b_min b_max g2 = Inr (b_draw, g3)"
    "b_min \<le> b_draw" "b_draw \<le> b_max" by blast
  have "generate_realistic_skin_rgb tone undertone g =
          Inr ([(''r'', PyInt (max 0 (min 255 (r_draw + r_adj)))),
                (''g'', PyInt (max 0 (min 255 (g_draw + g_adj)))),
                (''b'', PyInt (max 0 (min 255 (b_draw + b_adj))))], g3)"
    using assms r(1) gr(1) b(1) by (simp add: generate_realistic_skin_rgb_def Let_def)
  with r gr b show ?thesis by blast
qed

lemma skin_provider:
  "\<exists>r g'. fallback_skin_tone_analysis img g = Inr (r, g') \<and>
     (\<exists>c. map_of r ''confidence'' = Some (PyFloat c) \<and> 0.75 \<le> c \<and> c \<le> 0.95)"
proof -
  from fixed_table_sampled [OF skin_tones_total, of g]
  obtain tone ws g1 where t: "weighted_random_selection real_arith skin_tones g = Inr ((tone, ws), g1)"
    "tone \<in> fst ` set skin_tones" by blast
  from fixed_table_sampled [OF undertones_total, of g1]
  obtain undertone ws' g2 where
    u: "weighted_random_selection real_arith undertones g1 = Inr ((undertone, ws'), g2)"
    "undertone \<in> fst ` set undertones" by blast
  obtain c g3 where c: "uniform 0.75 0.95 g2 = (c, g3)" by (cases "uniform 0.75 0.95 g2")
  with uniform_range [of "0.75" "0.95" g2] have cb: "0.75 \<le> c \<and> c \<le> 0.95" by simp
  have "map_of base_ranges tone \<noteq> None"
    using t(2) by (subst base_ranges_keys) (simp add: skin_tones_def)
  then obtain r_min r_max g_min g_max b_min b_max where
    br: "map_of base_ranges tone = Some ((r_min, r_max), (g_min, g_max), (b_min, b_max))"
    by (cases "map_of base_ranges tone") auto
  have "map_of undertone_adjustments undertone \<noteq> None"
    using u(2) by (subst undertone_adjustments_keys) (simp add: undertones_def)
  then obtain r_adj g_adj b_adj where
    ua: "map_of undertone_adjustments undertone = Some (r_adj, g_adj, b_adj)"
    by (cases "map_of undertone_adjustments undertone") auto
  from skin_rgb_returns [OF br ua, of g3]
  obtain rgb g4 where "generate_realistic_skin_rgb tone undertone g3 = Inr (rgb, g4)"
    by blast
  with t(1) u(1) c cb show ?thesis
    by (auto simp add: fallback_skin_tone_analysis_def Let_def)
qed



text \<open>
  Claim C10: the synthesizer fails, with the \<^verbatim>\<open>KeyError\<close> of the dictionary subscript,
  exactly when the tone is none of the six labels or the undertone is none of the three;
  when both are among them it returns a colour, so no other failure is reachable.
\<close>

theorem skin_rgb_fails_iff_unknown_label:
  "(generate_realistic_skin_rgb skin_tone undertone g = Inl KeyError \<longleftrightarrow>
      skin_tone \<notin> {''Type I - Very fair'', ''Type II - Fair'', ''Type III - Medium'',
                     ''Type IV - Olive'', ''Type V - Brown'', ''Type VI - Dark brown to black''} \<or>
      undertone \<notin> {''Cool'', ''Neutral'', ''Warm''}) \<and>
   ((\<exists>rgb g'. generate_realistic_skin_rgb skin_tone undertone g = Inr (rgb, g')) \<longleftrightarrow>
      skin_tone \<in> {''Type I - Very fair'', ''Type II - Fair'', ''Type III - Medium'',
                     ''Type IV - Olive'', ''Type V - Brown'', ''Type VI - Dark brown to black''} \<and>
      undertone \<in> {''Cool'', ''Neutral'', ''Warm''})"
proof (cases "map_of base_ranges skin_tone = None \<or> map_of undertone_adjustments undertone = None")
  case True
  from skin_rgb_missing_key [OF True, of g] True show ?thesis
    using base_ranges_keys [of skin_tone] undertone_adjustments_keys [of undertone] by auto
next
  case False
  then obtain r_min r_max g_min g_max b_min b_max r_adj g_adj b_adj where
    br: "map_of base_ranges skin_tone = Some ((r_min, r_max), (g_min, g_max), (b_min, b_max))"
    and ua: "map_of undertone_adjustments undertone = Some (r_adj, g_adj, b_adj)"
    by (cases "map_of base_ranges skin_tone"; cases "map_of undertone_adjustments undertone") auto
  from skin_rgb_returns [OF br ua, of g]
  obtain rgb g' where "generate_realistic_skin_rgb skin_tone undertone g = Inr (rgb, g')"
    by blast
  with False show ?thesis
    using base_ranges_keys [of skin_tone] undertone_adjustments_keys [of undertone] by auto
qed

theorem skin_rgb_fails_iff_unknown_label_witness:
  "generate_realistic_skin_rgb ''Type VII'' ''Cool'' (constant_rng 0) = Inl KeyError \<and>
   generate_realistic_skin_rgb ''Type II - Fair'' ''cool'' (constant_rng 0) = Inl KeyError \<and>
   (\<exists>rgb g'. generate_realistic_skin_rgb ''Type II - Fair'' ''Cool'' (constant_rng 0) =
      Inr (rgb, g'))"
  using skin_rgb_fails_iff_unknown_label [of "''Type VII''" "''Cool''" "constant_rng 0"]
        skin_rgb_fails_iff_unknown_label [of "''Type II - Fair''" "''cool''" "constant_rng 0"]
        skin_rgb_fails_iff_unknown_label [of "''Type II - Fair''" "''Cool''" "constant_rng 0"]
  by simp

section \<open>Claims on the providers\<close>

text \<open>
  Claim C3: for every gender string, recognised or not, and for the omitted argument,
  the body provider returns. Its label is the one the sampler draws from the male table
  when the lowercased gender is \<open>male\<close> or \<open>m\<close>, and from the female table in every other
  case; both tables have five categories.
\<close>

theorem body_provider_table_by_gender:
  "(\<exists>label ws g1 r g'.
      weighted_random_selection real_arith
        (if lower gender = ''male'' \<or> lower gender = ''m''
         then male_body_shapes else female_body_shapes) g = Inr ((label, ws), g1) \<and>
      fallback_body_shape_analysis img (Some gender) g = Inr (r, g') \<and>
      map_of r ''body_type'' = Some (PyStr label)) \<and>
   (\<exists>label ws g1 r g'.
      weighted_random_selection real_arith female_body_shapes g = Inr ((label, ws), g1) \<and>
      fallback_body_shape_analysis img None g = Inr (r, g') \<and>
      map_of r ''body_type'' = Some (PyStr label)) \<and>
   map fst male_body_shapes =
     [''Trapezoid'', ''Rectangle'', ''Triangle'', ''Oval'', ''Inverted Triangle''] \<and>
   map fst female_body_shapes =
     [''Hourglass'', ''Rectangle'', ''Pear'', ''Apple'', ''Inverted Triangle'']"
proof -
  have t: "body_shapes gender =
      (if lower gender = ''male'' \<or> lower gender = ''m''
       then male_body_shapes else female_body_shapes)"
    by (simp add: body_shapes_def)
  have f: "body_shapes ''female'' = female_body_shapes"
    using body_shapes_examples by simp
  from body_provider [of "Some gender" g img] t
  have 1: "\<exists>label ws g1 r g'.
      weighted_random_selection real_arith
        (if lower gender = ''male'' \<or> lower gender = ''m''
         then male_body_shapes else female_body_shapes) g = Inr ((label, ws), g1) \<and>
      fallback_body_shape_analysis img (Some gender) g = Inr (r, g') \<and>
      map_of r ''body_type'' = Some (PyStr label)"
    by (simp only: option.case) blast
  from body_provider [of None g img] f
  have 2: "\<exists>label ws g1 r g'.
      weighted_random_selection real_arith female_body_shapes g = Inr ((label, ws), g1) \<and>
      fallback_body_shape_analysis img None g = Inr (r, g') \<and>
      map_of r ''body_type'' = Some (PyStr label)"
    by (simp only: option.case) blast
  have 3: "map fst male_body_shapes =
     [''Trapezoid'', ''Rectangle'', ''Triangle'', ''Oval'', ''Inverted Triangle'']"
    by (simp add: male_body_shapes_def)
  have 4: "map fst female_body_shapes =
     [''Hourglass'', ''Rectangle'', ''Pear'', ''Apple'', ''Inverted Triangle'']"
    by (simp add: female_body_shapes_def)
  from 1 2 3 4 show ?thesis by blast
qed

theorem body_provider_table_by_gender_witness:
  "(\<exists>label ws g1 r g'.
      weighted_random_selection real_arith male_body_shapes (constant_rng 0) = Inr ((label, ws), g1) \<and>
      fallback_body_shape_analysis () (Some ''M'') (constant_rng 0) = Inr (r, g') \<and>
      map_of r ''body_type'' = Some (PyStr label)) \<and>
   (\<exists>label ws g1 r g'.
      weighted_random_selection real_arith female_body_shapes (constant_rng 0) = Inr ((label, ws), g1) \<and>
      fallback_body_shape_analysis () (Some ''unknown'') (constant_rng 0) = Inr (r, g') \<and>
      map_of r ''body_type'' = Some (PyStr label))"
proof -
  have m: "lower ''M'' = ''m''"
    by (simp add: lower_def lower_char_def char_of_def bit_0)
  have u: "lower ''unknown'' = ''unknown''"
    by (simp add: lower_def lower_char_def)
  from body_provider_table_by_gender [of "''M''" "constant_rng 0" "()"] m
  have 1: "\<exists>label ws g1 r g'.
      weighted_random_selection real_arith male_body_shapes (constant_rng 0) = Inr ((label, ws), g1) \<and>
      fallback_body_shape_analysis () (Some ''M'') (constant_rng 0) = Inr (r, g') \<and>
      map_of r ''body_type'' = Some (PyStr label)"
    by simp
  from body_provider_table_by_gender [of "''unknown''" "constant_rng 0" "()"] u
  have 2: "\<exists>label ws g1 r g'.
      weighted_random_selection real_arith female_body_shapes (constant_rng 0) = Inr ((label, ws), g1) \<and>
      fallback_body_shape_analysis () (Some ''unknown'') (constant_rng 0) = Inr (r, g') \<and>
      map_of r ''body_type'' = Some (PyStr label)"
    by simp
  from 1 2 show ?thesis by blast
qed

text \<open>
  Claim C6: each of the three providers returns, for every outcome of its draws, and the
  confidence of its result lies in the range of its type: \<open>[0.75, 0.95]\<close> for the face,
  \<open>[0.80, 0.95]\<close> for the body, \<open>[0.75, 0.95]\<close> for the skin.
\<close>

theorem provider_confidence_in_range:
  "(\<exists>r g'. fallback_face_shape_analysis face_image g = Inr (r, g') \<and>
      (\<exists>c. map_of r ''confidence'' = Some (PyFloat c) \<and> 0.75 \<le> c \<and> c \<le> 0.95)) \<and>
   (\<exists>r g'. fallback_body_shape_analysis body_image gender_arg g = Inr (r, g') \<and>
      (\<exists>c. map_of r ''confidence'' = Some (PyFloat c) \<and> 0.8 \<le> c \<and> c \<le> 0.95)) \<and>
   (\<exists>r g'. fallback_skin_tone_analysis skin_image g = Inr (r, g') \<and>
      (\<exists>c. map_of r ''confidence'' = Some (PyFloat c) \<and> 0.75 \<le> c \<and> c \<le> 0.95))"
proof (intro conjI)
  from face_provider [of face_image g]
  show "\<exists>r g'. fallback_face_shape_analysis face_image g = Inr (r, g') \<and>
      (\<exists>c. map_of r ''confidence'' = Some (PyFloat c) \<and> 0.75 \<le> c \<and> c \<le> 0.95)"
    by blast
next
  from body_provider [of gender_arg g body_image]
  show "\<exists>r g'. fallback_body_shape_analysis body_image gender_arg g = Inr (r, g') \<and>
      (\<exists>c. map_of r ''confidence'' = Some (PyFloat c) \<and> 0.8 \<le> c \<and> c \<le> 0.95)"
    by blast
next
  show "\<exists>r g'. fallback_skin_tone_analysis skin_image g = Inr (r, g') \<and>
      (\<exists>c. map_of r ''confidence'' = Some (PyFloat c) \<and> 0.75 \<le> c \<and> c \<le> 0.95)"
    by (rule skin_provider)
qed

theorem provider_confidence_in_range_witness:
  "(\<exists>r g'. fallback_face_shape_analysis () (constant_rng 1) = Inr (r, g') \<and>
      (\<exists>c. map_of r ''confidence'' = Some (PyFloat c) \<and> 0.75 \<le> c \<and> c \<le> 0.95)) \<and>
   (\<exists>r g'. fallback_body_shape_analysis () (Some ''male'') (constant_rng 1) = Inr (r, g') \<and>
      (\<exists>c. map_of r ''confidence'' = Some (PyFloat c) \<and> 0.8 \<le> c \<and> c \<le> 0.95)) \<and>
   (\<exists>r g'. fallback_skin_tone_analysis () (constant_rng 1) = Inr (r, g') \<and>
      (\<exists>c. map_of r ''confidence'' = Some (PyFloat c) \<and> 0.75 \<le> c \<and> c \<le> 0.95))"
  by (rule provider_confidence_in_range)

section \<open>The recommendation composer\<close>

lemma contains_iff_sublist: "contains s sub \<longleftrightarrow> sublist sub s"
  by (induction s) (auto simp: sublist_Cons_right)

lemma join_append:
  "ps \<noteq> [] \<Longrightarrow> qs \<noteq> [] \<Longrightarrow> join sep (ps @ qs) = join sep ps @ sep @ join sep qs"
proof (induction sep ps rule: join.induct)
  case (1 sep)
  then show ?case by simp
next
  case (2 sep p)
  then show ?case by (cases qs) auto
next
  case (3 sep p q ps)
  then show ?case by simp
qed

lemma length_join:
  "ps \<noteq> [] \<Longrightarrow>
   length (join sep ps) = sum_list (map length ps) + (length ps - 1) * length sep"
  by (induction sep ps rule: join.induct) auto

text \<open>
  The list of fragments is the concatenation of the fragments of the body type, the face
  shape, the skin tone and the personality code, each taken alone, in this order.
\<close>

lemma recommendation_parts_split:
  "recommendation_parts gender body_type face_shape mbti skin_tone =
     recommendation_parts gender body_type [] [] [] @
     recommendation_parts gender [] face_shape [] [] @
     recommendation_parts gender [] [] [] skin_tone @
     recommendation_parts gender [] [] mbti []"
  by (simp add: recommendation_parts_def split: option.splits)

lemma recommendation_parts_single:
  "length (recommendation_parts gender body_type [] [] []) \<le> 1 \<and>
   length (recommendation_parts gender [] face_shape [] []) \<le> 1 \<and>
   length (recommendation_parts gender [] [] [] skin_tone) \<le> 1 \<and>
   length (recommendation_parts gender [] [] mbti []) \<le> 1"
  by (simp add: recommendation_parts_def split: option.splits)

lemma skin_part:
  "skin_tone \<noteq> [] \<Longrightarrow>
   recommendation_parts gender [] [] [] skin_tone =
     [if sublist ''I'' skin_tone \<or> sublist ''II'' skin_tone then fair_skin_rec
      else if sublist ''III'' skin_tone then medium_skin_rec
      else if sublist ''IV'' skin_tone then olive_skin_rec
      else deep_skin_rec]"
  by (simp add: recommendation_parts_def contains_iff_sublist)

lemma skin_recs_distinct:
  "distinct [fair_skin_rec, medium_skin_rec, olive_skin_rec, deep_skin_rec]"
  by (simp add: fair_skin_rec_def medium_skin_rec_def olive_skin_rec_def deep_skin_rec_def)

text \<open>
  Every string that contains \<open>II\<close>, \<open>III\<close> or \<open>IV\<close> contains \<open>I\<close>: with the tests in this
  order the second and the third branch are never taken.
\<close>

lemma sublist_I:
  "sublist (CHR ''I'' # rest) s \<Longrightarrow> sublist ''I'' s"
proof -
  assume "sublist (CHR ''I'' # rest) s"
  then obtain ps ss where "s = ps @ (CHR ''I'' # rest) @ ss" by (auto simp: sublist_def)
  then have "s = ps @ ''I'' @ (rest @ ss)" by simp
  then show ?thesis unfolding sublist_def by blast
qed

lemma medium_and_olive_unreachable:
  assumes "skin_tone \<noteq> []"
  shows "recommendation_parts gender [] [] [] skin_tone =
     [if sublist ''I'' skin_tone then fair_skin_rec else deep_skin_rec]"
  using skin_part [OF assms, of gender]
    sublist_I [of "''I''" skin_tone] sublist_I [of "''II''" skin_tone]
    sublist_I [of "''V''" skin_tone]
  by auto

text \<open>
  Claim C2: for every nonempty skin tone, the fragment that the composer adds for it,
  after the fragments of the body type and the face shape and before the fragment of
  the personality code, is chosen by the tests on the raw string in this order: the
  fair-skin fragment when it contains \<open>I\<close> or \<open>II\<close>, else the medium-skin fragment when it
  contains \<open>III\<close>, else the olive-skin fragment when it contains \<open>IV\<close>, else the deep-skin
  fragment. A string that contains both \<open>I\<close> and \<open>III\<close>, such as \<open>Type III - Medium\<close>,
  gets the fair-skin fragment.
\<close>

theorem skin_fragment_priority:
  "(skin_tone \<noteq> [] \<longrightarrow>
      recommendation_parts gender body_type face_shape mbti skin_tone =
        recommendation_parts gender body_type face_shape [] [] @
        [if sublist ''I'' skin_tone \<or> sublist ''II'' skin_tone then fair_skin_rec
         else if sublist ''III'' skin_tone then medium_skin_rec
         else if sublist ''IV'' skin_tone then olive_skin_rec
         else deep_skin_rec] @
        recommendation_parts gender [] [] mbti []) \<and>
   (sublist ''I'' skin_tone \<and> sublist ''III'' skin_tone \<longrightarrow>
      generate_recommendation gender [] [] [] skin_tone = fair_skin_rec) \<and>
   generate_recommendation gender [] [] [] ''Type III - Medium'' = fair_skin_rec"
proof (intro conjI impI)
  assume ne: "skin_tone \<noteq> []"
  have "recommendation_parts gender body_type face_shape [] [] =
          recommendation_parts gender body_type [] [] [] @
          recommendation_parts gender [] face_shape [] []"
    by (simp add: recommendation_parts_def)
  with recommendation_parts_split [of gender body_type face_shape mbti skin_tone]
    skin_part [OF ne, of gender]
  show "recommendation_parts gender body_type face_shape mbti skin_tone =
        recommendation_parts gender body_type face_shape [] [] @
        [if sublist ''I'' skin_tone \<or> sublist ''II'' skin_tone then fair_skin_rec
         else if sublist ''III'' skin_tone then medium_skin_rec
         else if sublist ''IV'' skin_tone then olive_skin_rec
         else deep_skin_rec] @
        recommendation_parts gender [] [] mbti []"
    by simp
next
  assume a: "sublist ''I'' skin_tone \<and> sublist ''III'' skin_tone"
  then have "skin_tone \<noteq> []" by auto
  from skin_part [OF this, of gender] a
  show "generate_recommendation gender [] [] [] skin_tone = fair_skin_rec"
    by (simp add: generate_recommendation_def)
next
  show "generate_recommendation gender [] [] [] ''Type III - Medium'' = fair_skin_rec"
    by (simp add: generate_recommendation_def recommendation_parts_def)
qed

theorem skin_fragment_priority_witness:
  "''Type III - Medium'' \<noteq> [] \<and>
   sublist ''I'' ''Type III - Medium'' \<and> sublist ''III'' ''Type III - Medium'' \<and>
   recommendation_parts ''female'' ''pear'' [] ''intj'' ''Type III - Medium'' =
     recommendation_parts ''female'' ''pear'' [] [] [] @ [fair_skin_rec] @
     recommendation_parts ''female'' [] [] ''intj'' [] \<and>
   generate_recommendation ''female'' [] [] [] ''Type III - Medium'' = fair_skin_rec"
proof -
  have s: "sublist ''I'' ''Type III - Medium''" "sublist ''III'' ''Type III - Medium''"
    by (simp_all add: contains_iff_sublist [symmetric])
  from skin_fragment_priority [of "''Type III - Medium''" "''female''" "''pear''" "[]" "''intj''"] s
  show ?thesis by simp
qed

text \<open>
  Claim C7: with the body type, the face shape, the personality code and the skin tone
  all empty the composer returns the generic message. The list of fragments is made of
  the fragments of the body type, the face shape, the skin tone and the personality code
  in this order, and when the list is not empty the result is its elements joined by one
  space.
\<close>

theorem recommendation_generic_or_joined:
  "generate_recommendation gender [] [] [] [] = generic_rec \<and>
   recommendation_parts gender body_type face_shape mbti skin_tone =
     recommendation_parts gender body_type [] [] [] @
     recommendation_parts gender [] face_shape [] [] @
     recommendation_parts gender [] [] [] skin_tone @
     recommendation_parts gender [] [] mbti [] \<and>
   (recommendation_parts gender body_type face_shape mbti skin_tone \<noteq> [] \<longrightarrow>
      generate_recommendation gender body_type face_shape mbti skin_tone =
        join '' '' (recommendation_parts gender body_type [] [] [] @
                    recommendation_parts gender [] face_shape [] [] @
                    recommendation_parts gender [] [] [] skin_tone @
                    recommendation_parts gender [] [] mbti []))"
proof (intro conjI impI)
  show "generate_recommendation gender [] [] [] [] = generic_rec"
    by (simp add: generate_recommendation_def recommendation_parts_def)
next
  show "recommendation_parts gender body_type face_shape mbti skin_tone =
     recommendation_parts gender body_type [] [] [] @
     recommendation_parts gender [] face_shape [] [] @
     recommendation_parts gender [] [] [] skin_tone @
     recommendation_parts gender [] [] mbti []"
    by (rule recommendation_parts_split)
next
  assume ne: "recommendation_parts gender body_type face_shape mbti skin_tone \<noteq> []"
  then have "generate_recommendation gender body_type face_shape mbti skin_tone =
      join '' '' (recommendation_parts gender body_type face_shape mbti skin_tone)"
    by (simp add: generate_recommendation_def Let_def)
  then show "generate_recommendation gender body_type face_shape mbti skin_tone =
        join '' '' (recommendation_parts gender body_type [] [] [] @
                    recommendation_parts gender [] face_shape [] [] @
                    recommendation_parts gender [] [] [] skin_tone @
                    recommendation_parts gender [] [] mbti [])"
    using recommendation_parts_split [of gender body_type face_shape mbti skin_tone]
    by simp
qed

theorem recommendation_generic_or_joined_witness:
  "recommendation_parts ''female'' ''hourglass'' ''oval'' ''INTJ'' ''Type II - Fair'' \<noteq> [] \<and>
   generate_recommendation ''female'' ''hourglass'' ''oval'' ''INTJ'' ''Type II - Fair'' =
     dict_get body_recs ''hourglass'' [] @ '' '' @ dict_get face_recs ''oval'' [] @ '' '' @
     fair_skin_rec @ '' '' @
     ''Your INTJ personality suggests: '' @ dict_get PERSONALITY_STYLES ''INTJ'' []"
proof -
  have p: "recommendation_parts ''female'' ''hourglass'' ''oval'' ''INTJ'' ''Type II - Fair'' =
     [dict_get body_recs ''hourglass'' [], dict_get face_recs ''oval'' [], fair_skin_rec,
      ''Your INTJ personality suggests: '' @ dict_get PERSONALITY_STYLES ''INTJ'' []]"
    by (simp add: recommendation_parts_def lower_def lower_char_def upper_def upper_char_def
        dict_get_def body_recs_def face_recs_def PERSONALITY_STYLES_def)
  have ne: "recommendation_parts ''female'' ''hourglass'' ''oval'' ''INTJ'' ''Type II - Fair'' \<noteq> []"
    using p by simp
  from recommendation_generic_or_joined
         [of "''female''" "''hourglass''" "''oval''" "''INTJ''" "''Type II - Fair''"] ne
  have "generate_recommendation ''female'' ''hourglass'' ''oval'' ''INTJ'' ''Type II - Fair'' =
     join '' '' (recommendation_parts ''female'' ''hourglass'' ''oval'' ''INTJ'' ''Type II - Fair'')"
    by simp
  with ne show ?thesis by (simp add: p)
qed

section \<open>The product filter\<close>

lemma mset_swap_list: "i < length xs \<Longrightarrow> j < length xs \<Longrightarrow> mset (swap xs i j) = mset xs"
  unfolding swap_def by (rule mset_swap)

lemma length_swap: "length (swap xs i j) = length xs"
  by (simp add: swap_def)

text \<open>
  The loop of \<open>shuffle\<close> exchanges elements at positions inside the list, so the result
  is a permutation of the argument.
\<close>

lemma mset_shuffle_loop:
  "i < length xs \<Longrightarrow> mset (fst (shuffle_loop i xs g)) = mset xs"
proof (induction i arbitrary: xs g)
  case 0
  then show ?case by simp
next
  case (Suc i)
  obtain j g' where j: "randbelow (Suc i + 1) g = (j, g')" by (cases "randbelow (Suc i + 1) g")
  then have "j < Suc i + 1" by (auto simp: randbelow_def rng_next_def)
  with Suc.prems have jl: "j < length xs" by simp
  have "mset (fst (shuffle_loop i (swap xs (Suc i) j) g')) = mset (swap xs (Suc i) j)"
    using Suc.prems by (intro Suc.IH) (simp add: length_swap)
  also have "\<dots> = mset xs" using Suc.prems jl by (rule mset_swap_list)
  finally show ?case using j by simp
qed

lemma mset_shuffle: "mset (fst (shuffle xs g)) = mset xs"
proof (cases xs)
  case Nil
  then show ?thesis by (simp add: shuffle_def)
next
  case (Cons y ys)
  then show ?thesis unfolding shuffle_def by (intro mset_shuffle_loop) simp
qed

lemma set_shuffle: "set (fst (shuffle xs g)) = set xs"
  using mset_shuffle [of xs g] by (rule mset_eq_setD)

lemma length_shuffle: "length (fst (shuffle xs g)) = length xs"
  using mset_shuffle [of xs g] by (rule mset_eq_length)

text \<open>
  The comprehension keeps the matching rows when every gender field is a string, and
  raises as soon as one is \<^verbatim>\<open>None\<close>.
\<close>

lemma filtered_by_gender_strings:
  "\<forall>p \<in> set ps. get_gender p \<noteq> None \<Longrightarrow>
   filtered_by_gender str_lower gender ps = Inr (filter (gender_matches str_lower gender) ps)"
  by (induction ps) (auto simp: gender_matches_def split: option.splits)

lemma filtered_by_gender_None:
  "\<exists>p \<in> set ps. get_gender p = None \<Longrightarrow>
   filtered_by_gender str_lower gender ps = Inl AttributeError"
proof (induction ps)
  case Nil
  then show ?case by simp
next
  case (Cons p ps)
  show ?case
  proof (cases "get_gender p")
    case None
    then show ?thesis by simp
  next
    case (Some v)
    with Cons.prems have "\<exists>q \<in> set ps. get_gender q = None" by auto
    with Cons.IH Some show ?thesis by simp
  qed
qed

text \<open>
  Where no gender field is \<^verbatim>\<open>None\<close>, the filter keeps its floor of three, for every
  lowering function: for a nonempty gender it returns, in some order, the rows whose
  gender field equals the gender after both are lowered when there are at least three
  such rows, and the whole catalogue otherwise; so it returns at least three rows unless
  the catalogue has fewer than three. Rows are counted as the code counts them, with
  \<^verbatim>\<open>len\<close>.
\<close>

lemma filter_products_gender_floor:
  assumes "gender \<noteq> []" and "\<forall>p \<in> set PRODUCTS. get_gender p \<noteq> None"
  shows "\<exists>r g'. filter_products str_lower PRODUCTS gender body_type skin_tone mbti g = Inr (r, g') \<and>
           mset r =
             (if 3 \<le> length (filter (gender_matches str_lower gender) PRODUCTS)
              then mset (filter (gender_matches str_lower gender) PRODUCTS)
              else mset PRODUCTS) \<and>
           set r =
             (if 3 \<le> length (filter (gender_matches str_lower gender) PRODUCTS)
              then {p \<in> set PRODUCTS. gender_matches str_lower gender p}
              else set PRODUCTS) \<and>
           (3 \<le> length r \<or> length PRODUCTS < 3)"
proof -
  let ?m = "filter (gender_matches str_lower gender) PRODUCTS"
  let ?f = "if 3 \<le> length ?m then ?m else PRODUCTS"
  obtain r g' where s: "shuffle ?f g = (r, g')" by (cases "shuffle ?f g")
  have "filter_products str_lower PRODUCTS gender body_type skin_tone mbti g = Inr (shuffle ?f g)"
    using assms filtered_by_gender_strings [of PRODUCTS str_lower gender]
    by (simp add: filter_products_def Let_def not_less)
  with s have e: "filter_products str_lower PRODUCTS gender body_type skin_tone mbti g = Inr (r, g')"
    by simp
  have r: "r = fst (shuffle ?f g)" using s by simp
  have m: "mset r = (if 3 \<le> length ?m then mset ?m else mset PRODUCTS)"
    unfolding r by (simp add: mset_shuffle)
  have t: "set r = (if 3 \<le> length ?m then set ?m else set PRODUCTS)"
    unfolding r by (simp add: set_shuffle)
  have "length r = (if 3 \<le> length ?m then length ?m else length PRODUCTS)"
    unfolding r by (simp add: length_shuffle)
  then have "3 \<le> length r \<or> length PRODUCTS < 3" by (auto split: if_splits)
  with e m t show ?thesis by simp
qed

lemma filter_products_None_field:
  assumes "gender \<noteq> []" and "\<exists>p \<in> set PRODUCTS. get_gender p = None"
  shows "filter_products str_lower PRODUCTS gender body_type skin_tone mbti g = Inl AttributeError"
  using assms filtered_by_gender_None [of PRODUCTS str_lower gender]
  by (simp add: filter_products_def)

text \<open>
  Claim C4 says that the filter returns rows for every catalogue and every provided
  gender. The code breaks it on a catalogue that its own loader produces: a row of the
  file that is shorter than the header gets the gender field \<^verbatim>\<open>None\<close>, the default of
  \<^verbatim>\<open>p.get("gender", "")\<close> does not apply, and \<^verbatim>\<open>.lower()\<close> raises \<^verbatim>\<open>AttributeError\<close>. On the
  same row without the gender column the default applies and the filter returns the
  whole catalogue, as the claim says.
\<close>

theorem filter_products_none_gender_raises:
  "filter_products lower [[''name'' \<mapsto> Some ''shirt'', ''gender'' \<mapsto> None]] ''male'' [] [] []
     (constant_rng 0) = Inl AttributeError \<and>
   filter_products lower [[''name'' \<mapsto> Some ''shirt'']] ''male'' [] [] []
     (constant_rng 0) = Inr ([[''name'' \<mapsto> Some ''shirt'']], constant_rng 0)"
  by (simp add: filter_products_def get_gender_def shuffle_def lower_def lower_char_def)

text \<open>
  Claim C9: the result of the filter, the order of the rows and a failure included, does
  not depend on the body type, the skin tone or the personality code: two calls on the
  same catalogue, gender and generator state give the same result.
\<close>

theorem filter_products_ignores_attributes:
  "filter_products str_lower PRODUCTS gender body_type skin_tone mbti g =
   filter_products str_lower PRODUCTS gender body_type' skin_tone' mbti' g"
  by (simp add: filter_products_def)

end
